theory Spec2Isabelle
  imports Main "HOL-Library.Word"
begin

section \<open>Python values and the runtime\<close>

text \<open>
  A Python \<open>str\<close> is a sequence of Unicode code points; it is modelled as the list
  of these code points, so that equality and concatenation are those of Python.
\<close>

type_synonym pystr = "nat list"

definition ascii :: "string \<Rightarrow> pystr" where
  "ascii s = map of_char s"

text \<open>
  The values \<open>response.json()\<close> can return: \<open>None\<close>, booleans, integers, floats (given
  by their 64 bits), strings, lists and dictionaries with string keys. A dictionary is an
  association list in insertion order, looked up with \<open>map_of\<close>.
\<close>

datatype pyval =
    PNone
  | PBool bool
  | PInt int
  | PFloat "64 word"
  | PStr pystr
  | PList "pyval list"
  | PDict "(pystr \<times> pyval) list"

text \<open>Truth value of a Python object; a float is false when it is \<open>0.0\<close> or \<open>-0.0\<close>.\<close>

fun truthy :: "pyval \<Rightarrow> bool" where
  "truthy PNone = False"
| "truthy (PBool b) = b"
| "truthy (PInt n) = (n \<noteq> 0)"
| "truthy (PFloat w) = (take_bit 63 w \<noteq> 0)"
| "truthy (PStr s) = (s \<noteq> [])"
| "truthy (PList xs) = (xs \<noteq> [])"
| "truthy (PDict d) = (d \<noteq> [])"

text \<open>Python's \<open>a or b\<close>: the first operand when it is true, else the second.\<close>

definition py_or :: "pyval \<Rightarrow> pyval \<Rightarrow> pyval" where
  "py_or a b = (if truthy a then a else b)"

text \<open>
  What the interpreter itself computes and the repository does not define is a parameter
  of the model: \<open>repr\<close> of a value, and the texts of the \<open>TypeError\<close>s the interpreter
  raises for \<open>x in v\<close> on a value that is no container, for \<open>v['key']\<close> on a list or a
  string, and for hashing a list or a dictionary.
\<close>

record runtime =
  repr :: "pyval \<Rightarrow> pystr"
  not_container :: "pyval \<Rightarrow> pystr"
  bad_subscript :: "pyval \<Rightarrow> pystr"
  unhashable :: "pyval \<Rightarrow> pystr"

text \<open>A value inside an f-string: a string is inserted as it is, any other value as its \<open>repr\<close>.\<close>

definition py_format :: "runtime \<Rightarrow> pyval \<Rightarrow> pystr" where
  "py_format rt v = (case v of PStr s \<Rightarrow> s | _ \<Rightarrow> repr rt v)"

text \<open>\<open>sep.join(xs)\<close>.\<close>

fun join :: "pystr \<Rightarrow> pystr list \<Rightarrow> pystr" where
  "join sep [] = []"
| "join sep [x] = x"
| "join sep (x # y # ys) = x @ sep @ join sep (y # ys)"

text \<open>\<open>needle in haystack\<close> on two strings: the needle occurs as a contiguous block.\<close>

fun starts_with :: "pystr \<Rightarrow> pystr \<Rightarrow> bool" where
  "starts_with [] hay = True"
| "starts_with (c # cs) [] = False"
| "starts_with (c # cs) (h # hs) = (c = h \<and> starts_with cs hs)"

fun occurs_in :: "pystr \<Rightarrow> pystr \<Rightarrow> bool" where
  "occurs_in needle [] = (needle = [])"
| "occurs_in needle (h # hs) = (starts_with needle (h # hs) \<or> occurs_in needle hs)"

section \<open>Exceptions\<close>

text \<open>
  Modelled from the spec: the module \<open>exceptions\<close> (line 10) is not among the sources;
  \<open>APIAnswerError\<close> and \<open>SendMessageError\<close> are taken as the spec's two error kinds, two
  unrelated plain subclasses of \<open>Exception\<close>, whose \<open>str\<close> is the message they were built
  with. \<open>TypeError\<close> and \<open>KeyError\<close> are Python's own, and \<open>JSONDecodeError\<close> is what
  \<open>response.json()\<close> raises on a body that is not JSON. An exception is its kind and its
  argument.
\<close>

datatype exc_kind = APIAnswerError | SendMessageError | TypeError | KeyError | JSONDecodeError

datatype exc = Exc exc_kind pystr

fun kind :: "exc \<Rightarrow> exc_kind" where
  "kind (Exc k a) = k"

fun arg :: "exc \<Rightarrow> pystr" where
  "arg (Exc k a) = a"

text \<open>\<open>str(error)\<close>: the argument, except that a \<open>KeyError\<close> shows the \<open>repr\<close> of its argument.\<close>

definition str_exc :: "runtime \<Rightarrow> exc \<Rightarrow> pystr" where
  "str_exc rt e = (if kind e = KeyError then repr rt (PStr (arg e)) else arg e)"

definition raised :: "exc_kind \<Rightarrow> ('t \<times> (exc + 'a)) \<Rightarrow> bool" where
  "raised k r = (case snd r of Inl e \<Rightarrow> kind e = k | Inr _ \<Rightarrow> False)"

section \<open>Effects and the environment\<close>

text \<open>
  Every function returns the effects it had, in order, with its result: the log records
  written, the GET request issued (given by its \<open>from_date\<close> parameter), the call of
  \<open>bot.send_message\<close> (chat identifier and text) and the sleep.
\<close>

datatype level = DEBUG | ERROR | CRITICAL

datatype event =
    Log level pystr
  | HttpGet pyval
  | BotSend "pystr option" pystr
  | Sleep int

text \<open>
  The outcomes of the calls into the two client libraries, as the source tells them
  apart: \<open>requests.get\<close> raises a \<open>RequestException\<close> or returns a response with a status
  code and a body that \<open>json()\<close> decodes or not; \<open>bot.send_message\<close> returns or raises a
  \<open>TelegramError\<close>.
\<close>

datatype body = Json pyval | NotJson pystr

datatype fetch_outcome = RequestException | Response int body

datatype send_outcome = Delivered | TelegramError

text \<open>The three module-level values read from the environment (lines 14-16); \<open>None\<close> when unset.\<close>

record config =
  PRACTICUM_TOKEN :: "pystr option"
  TELEGRAM_TOKEN :: "pystr option"
  TELEGRAM_CHAT_ID :: "pystr option"

section \<open>Constants of the module\<close>

definition RETRY_PERIOD :: int where
  "RETRY_PERIOD = 600"

text \<open>ENDPOINT (line 19).\<close>

definition ENDPOINT :: pystr where
  "ENDPOINT = ascii ''https://practicum.yandex.ru/api/user_api/homework_statuses/''"

text \<open>Code points of HOMEWORK_VERDICTS['approved'] (line 23).\<close>

definition verdict_approved :: pystr where
  "verdict_approved =
     [1056, 1072, 1073, 1086, 1090, 1072, 32, 1087, 1088, 1086, 1074, 1077, 1088, 1077,
      1085, 1072, 58, 32, 1088, 1077, 1074, 1100, 1102, 1077, 1088, 1091, 32, 1074,
      1089, 1105, 32, 1087, 1086, 1085, 1088, 1072, 1074, 1080, 1083, 1086, 1089, 1100,
      46, 32, 1059, 1088, 1072, 33]"

text \<open>Code points of HOMEWORK_VERDICTS['reviewing'] (line 24).\<close>

definition verdict_reviewing :: pystr where
  "verdict_reviewing =
     [1056, 1072, 1073, 1086, 1090, 1072, 32, 1074, 1079, 1103, 1090, 1072, 32, 1085,
      1072, 32, 1087, 1088, 1086, 1074, 1077, 1088, 1082, 1091, 32, 1088, 1077, 1074,
      1100, 1102, 1077, 1088, 1086, 1084, 46]"

text \<open>Code points of HOMEWORK_VERDICTS['rejected'] (line 25).\<close>

definition verdict_rejected :: pystr where
  "verdict_rejected =
     [1056, 1072, 1073, 1086, 1090, 1072, 32, 1087, 1088, 1086, 1074, 1077, 1088, 1077,
      1085, 1072, 58, 32, 1091, 32, 1088, 1077, 1074, 1100, 1102, 1077, 1088, 1072, 32,
      1077, 1089, 1090, 1100, 32, 1079, 1072, 1084, 1077, 1095, 1072, 1085, 1080, 1103,
      46]"

text \<open>Code points of the debug text of line 43, up to the message.\<close>

definition txt_attempt :: pystr where
  "txt_attempt =
     [1055, 1086, 1087, 1099, 1090, 1082, 1072, 32, 1086, 1090, 1087, 1088, 1072, 1074,
      1090, 1100, 32, 1089, 1086, 1086, 1073, 1097, 1077, 1085, 1080, 1077, 32, 45, 32]"

text \<open>Code points of the debug text of line 48.\<close>

definition txt_sent :: pystr where
  "txt_sent =
     [1057, 1086, 1086, 1073, 1097, 1077, 1085, 1080, 1077, 32, 1086, 1090, 1087, 1088,
      1072, 1074, 1083, 1077, 1085, 1086]"

text \<open>Code points of the text of lines 50 and 172.\<close>

definition txt_send_failure :: pystr where
  "txt_send_failure =
     [1057, 1073, 1086, 1081, 32, 1087, 1088, 1080, 32, 1086, 1090, 1087, 1088, 1072,
      1074, 1082, 1077, 32, 1089, 1086, 1086, 1073, 1097, 1077, 1085, 1080, 1103, 32,
      1074, 32, 84, 101, 108, 101, 103, 114, 97, 109]"

text \<open>Code points of line 69, up to the endpoint.\<close>

definition txt_request_error :: pystr where
  "txt_request_error =
     [1054, 1096, 1080, 1073, 1082, 1072, 32, 1087, 1088, 1080, 32, 1079, 1072, 1087,
      1088, 1086, 1089, 1077, 32, 1082, 32, 1101, 1085, 1076, 1087, 1086, 1080, 1085,
      1090, 1091, 58, 32]"

text \<open>Code points of lines 69-70, between the endpoint and the parameters.\<close>

definition txt_request_params :: pystr where
  "txt_request_params =
     [44, 1087, 1072, 1088, 1072, 1084, 1077, 1090, 1088, 1099, 32, 1079, 1072, 1087,
      1088, 1086, 1089, 1072, 58, 32]"

text \<open>Code points of lines 76-77, up to the endpoint.\<close>

definition txt_not_200 :: pystr where
  "txt_not_200 =
     [1054, 1090, 1074, 1077, 1090, 32, 1086, 1090, 32, 1101, 1085, 1076, 1087, 1086,
      1080, 1085, 1090, 1072, 32, 1086, 1090, 1083, 1080, 1095, 1085, 1099, 1081, 32,
      1086, 1090, 32, 50, 48, 48, 1069, 1085, 1076, 1087, 1086, 1080, 1085, 1090, 58,
      32]"

text \<open>Code points of line 77, between the endpoint and the parameters.\<close>

definition txt_params :: pystr where
  "txt_params =
     [44, 32, 1055, 1072, 1088, 1072, 1084, 1077, 1090, 1088, 1099, 58, 32]"

text \<open>Code points of lines 77-78, between the parameters and the status code.\<close>

definition txt_answer :: pystr where
  "txt_answer =
     [44, 1054, 1090, 1074, 1077, 1090, 58, 32]"

text \<open>Code points of line 88, up to the response.\<close>

definition txt_not_dict :: pystr where
  "txt_not_dict =
     [1058, 1080, 1087, 32, 1086, 1090, 1074, 1077, 1090, 1072, 32, 65, 80, 73, 32, 45,
      32, 1085, 1077, 32, 1089, 1083, 1086, 1074, 1072, 1088, 1100, 58, 32]"

text \<open>Code points of line 93, up to the response.\<close>

definition txt_no_homeworks :: pystr where
  "txt_no_homeworks =
     [1054, 1090, 1089, 1091, 1090, 1089, 1090, 1074, 1091, 1077, 1090, 32, 1082, 1083,
      1102, 1095, 32, 104, 111, 109, 101, 119, 111, 114, 107, 115, 32, 1074, 32, 1086,
      1090, 1074, 1077, 1090, 1077, 32, 65, 80, 73, 58, 32]"

text \<open>Code points of line 98, up to the response.\<close>

definition txt_not_list :: pystr where
  "txt_not_list =
     [1058, 1080, 1087, 32, 1086, 1090, 1074, 1077, 1090, 1072, 32, 65, 80, 73, 32, 45,
      32, 1085, 1077, 32, 1089, 1087, 1080, 1089, 1086, 1082, 58, 32]"

text \<open>Code points of the debug text of line 105.\<close>

definition txt_no_new :: pystr where
  "txt_no_new =
     [1053, 1077, 1090, 32, 1085, 1086, 1074, 1099, 1093, 32, 1089, 1090, 1072, 1090,
      1091, 1089, 1086, 1074, 32, 1076, 1086, 1084, 1072, 1096, 1077, 1082]"

text \<open>Code points of lines 112-113.\<close>

definition txt_missing_keys :: pystr where
  "txt_missing_keys =
     [1054, 1090, 1089, 1091, 1090, 1089, 1090, 1074, 1091, 32, 1085, 1077, 1086, 1073,
      1093, 1086, 1076, 1080, 1084, 1099, 1077, 32, 1082, 1083, 1102, 1095, 1080, 32,
      34, 104, 111, 109, 101, 119, 111, 114, 107, 95, 110, 97, 109, 101, 34, 44, 32, 34,
      115, 116, 97, 116, 117, 115, 34]"

text \<open>Code points of lines 120-121.\<close>

definition txt_undocumented :: pystr where
  "txt_undocumented =
     [1053, 1077, 1076, 1086, 1082, 1091, 1084, 1077, 1085, 1090, 1080, 1088, 1086,
      1074, 1072, 1085, 1085, 1099, 1081, 32, 1089, 1090, 1072, 1090, 1091, 1089, 32,
      1076, 1086, 1084, 1072, 1096, 1085, 1077, 1081, 32, 1088, 1072, 1073, 1086, 1090,
      1099, 32, 1086, 1073, 1085, 1072, 1088, 1091, 1078, 1077, 1085, 32, 1074, 32,
      1086, 1090, 1074, 1077, 1090, 1077, 32, 65, 80, 73]"

text \<open>Code points of line 126, up to the homework name.\<close>

definition txt_changed :: pystr where
  "txt_changed =
     [1048, 1079, 1084, 1077, 1085, 1080, 1083, 1089, 1103, 32, 1089, 1090, 1072, 1090,
      1091, 1089, 32, 1087, 1088, 1086, 1074, 1077, 1088, 1082, 1080, 32, 1088, 1072,
      1073, 1086, 1090, 1099, 32, 34]"

text \<open>Code points of line 126, between the homework name and the verdict.\<close>

definition txt_quote_dot :: pystr where
  "txt_quote_dot =
     [34, 46, 32]"

text \<open>Code points of lines 142-143, up to the joined names.\<close>

definition txt_no_env :: pystr where
  "txt_no_env =
     [1054, 1090, 1089, 1091, 1090, 1089, 1090, 1074, 1080, 1077, 32, 1086, 1073, 1103,
      1079, 1072, 1090, 1077, 1083, 1100, 1085, 1099, 1093, 32, 1087, 1077, 1088, 1077,
      1084, 1077, 1085, 1085, 1099, 1093, 32, 1086, 1082, 1088, 1091, 1078, 1077, 1085,
      1080, 1103, 32, 1074, 1086, 32, 1074, 1088, 1077, 1084, 1103, 32, 1079, 1072,
      1087, 1091, 1089, 1082, 1072, 32, 1073, 1086, 1090, 1072, 58, 32]"

text \<open>Code points of the argument of sys.exit, line 152.\<close>

definition txt_check_tokens :: pystr where
  "txt_check_tokens =
     [1055, 1088, 1086, 1074, 1077, 1088, 1100, 1090, 1077, 44, 32, 1079, 1072, 1076,
      1072, 1085, 1099, 32, 1083, 1080, 32, 1074, 1089, 1077, 32, 1090, 1086, 1082,
      1077, 1085, 1099]"

text \<open>Code points of line 174, up to the error.\<close>

definition txt_failure :: pystr where
  "txt_failure =
     [1057, 1073, 1086, 1081, 32, 1074, 32, 1088, 1072, 1073, 1086, 1090, 1077, 32,
      1087, 1088, 1086, 1075, 1088, 1072, 1084, 1084, 1099, 58, 32]"

text \<open>HOMEWORK_VERDICTS (lines 22-26).\<close>

definition HOMEWORK_VERDICTS :: "(pystr \<times> pystr) list" where
  "HOMEWORK_VERDICTS =
     [(ascii ''approved'', verdict_approved),
      (ascii ''reviewing'', verdict_reviewing),
      (ascii ''rejected'', verdict_rejected)]"

section \<open>send_message (lines 40-54)\<close>

text \<open>
  The bot handle is given by the outcome of its \<open>send_message\<close> call. Both debug
  records and the error record are written as in the source; \<open>exc_info\<close> is not modelled.
\<close>

definition send_message :: "config \<Rightarrow> send_outcome \<Rightarrow> pystr \<Rightarrow> event list \<times> (exc + unit)" where
  "send_message cfg bot_call message =
     (let attempt = [Log DEBUG (txt_attempt @ message), BotSend (TELEGRAM_CHAT_ID cfg) message]
      in case bot_call of
           Delivered \<Rightarrow> (attempt @ [Log DEBUG txt_sent], Inr ())
         | TelegramError \<Rightarrow>
             (let message_error = txt_send_failure
              in (attempt @ [Log ERROR message_error], Inl (Exc SendMessageError message_error))))"

section \<open>get_api_answer (lines 57-82)\<close>

text \<open>
  \<open>now\<close> is what \<open>int(time.time())\<close> gives in this call and \<open>transport\<close> the outcome of
  \<open>requests.get\<close>.
\<close>

definition get_api_answer :: "runtime \<Rightarrow> int \<Rightarrow> fetch_outcome \<Rightarrow> pyval \<Rightarrow> event list \<times> (exc + pyval)" where
  "get_api_answer rt now transport current_timestamp =
     (let timestamp = py_or current_timestamp (PInt now);
          params = PDict [(ascii ''from_date'', timestamp)]
      in case transport of
           RequestException \<Rightarrow>
             (let message_error =
                    txt_request_error @ ENDPOINT @ txt_request_params @ py_format rt params
              in ([HttpGet timestamp, Log ERROR message_error],
                  Inl (Exc APIAnswerError message_error)))
         | Response status_code content \<Rightarrow>
             if status_code \<noteq> 200 then
               (let message_error =
                      txt_not_200 @ ENDPOINT @ txt_params @ py_format rt params
                      @ txt_answer @ py_format rt (PInt status_code)
                in ([HttpGet timestamp, Log ERROR message_error],
                    Inl (Exc APIAnswerError message_error)))
             else
               (case content of
                  Json v \<Rightarrow> ([HttpGet timestamp], Inr v)
                | NotJson t \<Rightarrow> ([HttpGet timestamp], Inl (Exc JSONDecodeError t))))"

section \<open>check_response (lines 85-106)\<close>

definition check_response :: "runtime \<Rightarrow> pyval \<Rightarrow> event list \<times> (exc + pyval list)" where
  "check_response rt response =
     (case response of
        PDict d \<Rightarrow>
          (case map_of d (ascii ''homeworks'') of
             None \<Rightarrow>
               (let message_error = txt_no_homeworks @ py_format rt response
                in ([Log ERROR message_error], Inl (Exc KeyError message_error)))
           | Some (PList homeworks) \<Rightarrow>
               (if homeworks = [] then ([Log DEBUG txt_no_new], Inr homeworks)
                else ([], Inr homeworks))
           | Some _ \<Rightarrow>
               (let message_error = txt_not_list @ py_format rt response
                in ([Log ERROR message_error], Inl (Exc TypeError message_error))))
      | _ \<Rightarrow>
          (let message_error = txt_not_dict @ py_format rt response
           in ([Log ERROR message_error], Inl (Exc TypeError message_error))))"

section \<open>parse_status (lines 109-126)\<close>

text \<open>\<open>a or b\<close> on two strings, as in the guard of line 111.\<close>

definition str_or :: "pystr \<Rightarrow> pystr \<Rightarrow> pystr" where
  "str_or a b = (if a \<noteq> [] then a else b)"

text \<open>
  \<open>key in v\<close> for a string \<open>key\<close>: a key of a dictionary, an element of a list, a
  substring of a string; any other value is no container and the interpreter raises
  \<open>TypeError\<close>.
\<close>

definition str_in :: "runtime \<Rightarrow> pystr \<Rightarrow> pyval \<Rightarrow> exc + bool" where
  "str_in rt key v =
     (case v of
        PDict d \<Rightarrow> Inr (map_of d key \<noteq> None)
      | PList xs \<Rightarrow> Inr (PStr key \<in> set xs)
      | PStr s \<Rightarrow> Inr (occurs_in key s)
      | _ \<Rightarrow> Inl (Exc TypeError (not_container rt v)))"

text \<open>
  \<open>v[key]\<close> for a string \<open>key\<close>: the value of a dictionary, \<open>KeyError(key)\<close> when the key
  is absent; a list or a string takes no string index. The other values never reach a
  subscript in \<open>parse_status\<close> (the guard has raised); the interpreter raises
  \<open>TypeError\<close> there too.
\<close>

definition subscript :: "runtime \<Rightarrow> pyval \<Rightarrow> pystr \<Rightarrow> exc + pyval" where
  "subscript rt v key =
     (case v of
        PDict d \<Rightarrow> (case map_of d key of None \<Rightarrow> Inl (Exc KeyError key) | Some x \<Rightarrow> Inr x)
      | _ \<Rightarrow> Inl (Exc TypeError (bad_subscript rt v)))"

text \<open>
  \<open>homework_status not in HOMEWORK_VERDICTS\<close> (line 118) with the lookup of line 125:
  the dictionary hashes the value first, which raises \<open>TypeError\<close> for a list or a
  dictionary; a string is looked up; no other value equals a key.
\<close>

definition lookup_verdict :: "runtime \<Rightarrow> pyval \<Rightarrow> exc + pystr option" where
  "lookup_verdict rt v =
     (case v of
        PList _ \<Rightarrow> Inl (Exc TypeError (unhashable rt v))
      | PDict _ \<Rightarrow> Inl (Exc TypeError (unhashable rt v))
      | PStr s \<Rightarrow> Inr (map_of HOMEWORK_VERDICTS s)
      | _ \<Rightarrow> Inr None)"

definition parse_status :: "runtime \<Rightarrow> pyval \<Rightarrow> event list \<times> (exc + pystr)" where
  "parse_status rt homework =
     (case str_in rt (str_or (ascii ''homework_name'') (ascii ''status'')) homework of
        Inl e \<Rightarrow> ([], Inl e)
      | Inr False \<Rightarrow>
          (let message_error = txt_missing_keys
           in ([Log ERROR message_error], Inl (Exc KeyError message_error)))
      | Inr True \<Rightarrow>
          (case subscript rt homework (ascii ''homework_name'') of
             Inl e \<Rightarrow> ([], Inl e)
           | Inr homework_name \<Rightarrow>
               (case subscript rt homework (ascii ''status'') of
                  Inl e \<Rightarrow> ([], Inl e)
                | Inr homework_status \<Rightarrow>
                    (case lookup_verdict rt homework_status of
                       Inl e \<Rightarrow> ([], Inl e)
                     | Inr None \<Rightarrow>
                         (let message_error = txt_undocumented
                          in ([Log ERROR message_error], Inl (Exc KeyError message_error)))
                     | Inr (Some verdict) \<Rightarrow>
                         ([], Inr (txt_changed @ py_format rt homework_name
                                   @ txt_quote_dot @ verdict))))))"

section \<open>check_tokens (lines 129-146)\<close>

definition check_tokens :: "config \<Rightarrow> event list \<times> bool" where
  "check_tokens cfg =
     (let env_vars =
            [(ascii ''PRACTICUM_TOKEN'', PRACTICUM_TOKEN cfg),
             (ascii ''TELEGRAM_TOKEN'', TELEGRAM_TOKEN cfg),
             (ascii ''TELEGRAM_CHAT_ID'', TELEGRAM_CHAT_ID cfg)];
          none_env_vars = map fst (filter (\<lambda>(env_var_name, env_var). env_var = None) env_vars)
      in if none_env_vars \<noteq> [] then
           ([Log CRITICAL (txt_no_env @ join (ascii '', '') none_env_vars)], False)
         else ([], True))"

section \<open>main (lines 149-181)\<close>

text \<open>
  The two variables of the loop, and what the environment gives during one iteration:
  the clock, the outcome of the request, and the outcome of \<open>bot.send_message\<close> should
  the iteration call it (it does so at most once: after a failed send in the \<open>try\<close> body
  only the first handler runs).
\<close>

record loop_state =
  current_timestamp :: pyval
  prev_message :: pystr

record tick =
  clock :: int
  fetch :: fetch_outcome
  send :: send_outcome

text \<open>\<open>response.get(key, dflt)\<close>; the response is a dictionary when line 161 is reached.\<close>

definition dict_get :: "pyval \<Rightarrow> pystr \<Rightarrow> pyval \<Rightarrow> pyval" where
  "dict_get response key dflt =
     (case response of
        PDict d \<Rightarrow> (case map_of d key of None \<Rightarrow> dflt | Some v \<Rightarrow> v)
      | _ \<Rightarrow> dflt)"

text \<open>
  The body of the \<open>try\<close> (lines 159-169): the effects, the two variables as the body
  leaves them (an assignment made before an exception stays), and the exception raised.
\<close>

definition try_body :: "runtime \<Rightarrow> config \<Rightarrow> tick \<Rightarrow> loop_state \<Rightarrow> event list \<times> loop_state \<times> (exc + unit)" where
  "try_body rt cfg tk st =
     (case get_api_answer rt (clock tk) (fetch tk) (current_timestamp st) of
        (tr1, Inl e) \<Rightarrow> (tr1, st, Inl e)
      | (tr1, Inr response) \<Rightarrow>
          (case check_response rt response of
             (tr2, Inl e) \<Rightarrow> (tr1 @ tr2, st, Inl e)
           | (tr2, Inr homeworks) \<Rightarrow>
               (let st1 = st\<lparr>current_timestamp :=
                             dict_get response (ascii ''current_date'') (current_timestamp st)\<rparr>
                in case homeworks of
                     [] \<Rightarrow> (tr1 @ tr2, st1, Inr ())
                   | homework # _ \<Rightarrow>
                       (case parse_status rt homework of
                          (tr3, Inl e) \<Rightarrow> (tr1 @ tr2 @ tr3, st1, Inl e)
                        | (tr3, Inr message) \<Rightarrow>
                            if message \<noteq> prev_message st1 then
                              (case send_message cfg (send tk) message of
                                 (tr4, r) \<Rightarrow>
                                   (tr1 @ tr2 @ tr3 @ tr4, st1\<lparr>prev_message := message\<rparr>, r))
                            else (tr1 @ tr2 @ tr3, st1, Inr ())))))"

text \<open>
  The two handlers and the \<open>finally\<close> (lines 171-181). The last component is the
  exception that leaves the iteration, and with it \<open>main\<close>: the handler of
  \<open>Exception\<close> calls \<open>send_message\<close> outside any \<open>try\<close>.
\<close>

definition handlers :: "runtime \<Rightarrow> config \<Rightarrow> tick \<Rightarrow> event list \<times> loop_state \<times> (exc + unit) \<Rightarrow> event list \<times> loop_state \<times> exc option" where
  "handlers rt cfg tk body =
     (case body of
        (tr, st, Inr _) \<Rightarrow> (tr @ [Sleep RETRY_PERIOD], st, None)
      | (tr, st, Inl error) \<Rightarrow>
          if kind error = SendMessageError then
            (tr @ [Log ERROR txt_send_failure, Sleep RETRY_PERIOD], st, None)
          else
            (let message = txt_failure @ str_exc rt error
             in if message \<noteq> prev_message st then
                  (case send_message cfg (send tk) message of
                     (tr', r) \<Rightarrow>
                       (tr @ [Log ERROR message] @ tr' @ [Sleep RETRY_PERIOD],
                        st\<lparr>prev_message := message\<rparr>,
                        case r of Inl e \<Rightarrow> Some e | Inr _ \<Rightarrow> None))
                else (tr @ [Sleep RETRY_PERIOD], st, None)))"

definition iteration :: "runtime \<Rightarrow> config \<Rightarrow> tick \<Rightarrow> loop_state \<Rightarrow> event list \<times> loop_state \<times> exc option" where
  "iteration rt cfg tk st = handlers rt cfg tk (try_body rt cfg tk st)"

text \<open>
  The loop never ends by itself. It is run against the first iterations of the
  environment: \<open>Polling\<close> is the loop still running after them, \<open>Uncaught\<close> an exception
  that left \<open>main\<close>, \<open>SysExit\<close> the call of \<open>sys.exit\<close>.
\<close>

datatype outcome = SysExit pystr | Uncaught exc loop_state | Polling loop_state

fun main_loop :: "runtime \<Rightarrow> config \<Rightarrow> loop_state \<Rightarrow> tick list \<Rightarrow> event list \<times> outcome" where
  "main_loop rt cfg st [] = ([], Polling st)"
| "main_loop rt cfg st (tk # tks) =
     (case iteration rt cfg tk st of
        (tr, st', Some e) \<Rightarrow> (tr, Uncaught e st')
      | (tr, st', None) \<Rightarrow>
          (case main_loop rt cfg st' tks of (tr', out) \<Rightarrow> (tr @ tr', out)))"

text \<open>
  \<open>start\<close> is \<open>int(time.time())\<close> of line 154. Building the bot (line 153) has no
  effect that the loop observes.
\<close>

definition main :: "runtime \<Rightarrow> config \<Rightarrow> int \<Rightarrow> tick list \<Rightarrow> event list \<times> outcome" where
  "main rt cfg start ticks =
     (case check_tokens cfg of
        (tr, False) \<Rightarrow> (tr, SysExit txt_check_tokens)
      | (tr, True) \<Rightarrow>
          (case main_loop rt cfg \<lparr>current_timestamp = PInt start, prev_message = []\<rparr> ticks of
             (tr', out) \<Rightarrow> (tr @ tr', out)))"

section \<open>Observations on a run\<close>

text \<open>The texts handed to \<open>bot.send_message\<close>, in order: the calls of the Notifier.\<close>

fun sent_texts :: "event list \<Rightarrow> pystr list" where
  "sent_texts [] = []"
| "sent_texts (BotSend chat m # es) = m # sent_texts es"
| "sent_texts (e # es) = sent_texts es"

text \<open>The \<open>from_date\<close> parameters of the requests, in order.\<close>

fun requested :: "event list \<Rightarrow> pyval list" where
  "requested [] = []"
| "requested (HttpGet v # es) = v # requested es"
| "requested (e # es) = requested es"

text \<open>
  The message an iteration formats: the status notification of line 166, or the error
  notification of line 174 for an exception of the fetch, the validation or the
  formatting; none when the list of homeworks is empty.
\<close>

definition formatted_message :: "runtime \<Rightarrow> tick \<Rightarrow> loop_state \<Rightarrow> pystr option" where
  "formatted_message rt tk st =
     (case get_api_answer rt (clock tk) (fetch tk) (current_timestamp st) of
        (_, Inl e) \<Rightarrow> Some (txt_failure @ str_exc rt e)
      | (_, Inr response) \<Rightarrow>
          (case check_response rt response of
             (_, Inl e) \<Rightarrow> Some (txt_failure @ str_exc rt e)
           | (_, Inr []) \<Rightarrow> None
           | (_, Inr (homework # _)) \<Rightarrow>
               (case parse_status rt homework of
                  (_, Inl e) \<Rightarrow> Some (txt_failure @ str_exc rt e)
                | (_, Inr message) \<Rightarrow> Some message)))"

text \<open>
  The cursor an iteration leaves: the response's \<open>current_date\<close> when the fetch returned
  a body that passed \<open>check_response\<close> and has that key, the old cursor otherwise.
\<close>

definition next_cursor :: "runtime \<Rightarrow> tick \<Rightarrow> loop_state \<Rightarrow> pyval" where
  "next_cursor rt tk st =
     (case get_api_answer rt (clock tk) (fetch tk) (current_timestamp st) of
        (_, Inl e) \<Rightarrow> current_timestamp st
      | (_, Inr response) \<Rightarrow>
          (case check_response rt response of
             (_, Inl e) \<Rightarrow> current_timestamp st
           | (_, Inr homeworks) \<Rightarrow>
               dict_get response (ascii ''current_date'') (current_timestamp st)))"

text \<open>The values a dictionary can hash: all but lists and dictionaries.\<close>

definition hashable :: "pyval \<Rightarrow> bool" where
  "hashable v = (case v of PList _ \<Rightarrow> False | PDict _ \<Rightarrow> False | _ \<Rightarrow> True)"

section \<open>Sample inputs\<close>

text \<open>
  Inputs for the examples below. \<open>sample_runtime\<close> is one instance of the runtime
  parameter, with empty texts; every general result holds for all runtimes, and the
  examples state the runtime's texts as \<open>repr sample_runtime v\<close> without evaluating them.
\<close>

definition sample_runtime :: runtime where
  "sample_runtime =
     \<lparr>repr = (\<lambda>v. []), not_container = (\<lambda>v. []), bad_subscript = (\<lambda>v. []),
      unhashable = (\<lambda>v. [])\<rparr>"

definition sample_config :: config where
  "sample_config =
     \<lparr>PRACTICUM_TOKEN = Some (ascii ''practicum''), TELEGRAM_TOKEN = Some (ascii ''telegram''),
      TELEGRAM_CHAT_ID = Some (ascii ''42'')\<rparr>"

text \<open>The response \<open>{'homeworks': [{'homework_name': 'hw1', 'status': status}], 'current_date': date}\<close>.\<close>

definition status_response :: "string \<Rightarrow> int \<Rightarrow> pyval" where
  "status_response status date =
     PDict [(ascii ''homeworks'',
             PList [PDict [(ascii ''homework_name'', PStr (ascii ''hw1'')),
                           (ascii ''status'', PStr (ascii status))]]),
            (ascii ''current_date'', PInt date)]"

text \<open>An iteration that receives this response with HTTP 200.\<close>

definition status_tick :: "string \<Rightarrow> int \<Rightarrow> send_outcome \<Rightarrow> tick" where
  "status_tick status date out =
     \<lparr>clock = date, fetch = Response 200 (Json (status_response status date)), send = out\<rparr>"

text \<open>The notification for the homework \<open>hw1\<close> with a given verdict.\<close>

definition hw1_message :: "pystr \<Rightarrow> pystr" where
  "hw1_message verdict = txt_changed @ ascii ''hw1'' @ txt_quote_dot @ verdict"

text \<open>An iteration that receives \<open>{'homeworks': []}\<close>, with \<open>current_date\<close> when one is given.\<close>

definition quiet_tick :: "int \<Rightarrow> pyval option \<Rightarrow> tick" where
  "quiet_tick now date =
     \<lparr>clock = now,
      fetch = Response 200 (Json (PDict ((ascii ''homeworks'', PList [])
                # (case date of None \<Rightarrow> [] | Some v \<Rightarrow> [(ascii ''current_date'', v)])))),
      send = Delivered\<rparr>"

text \<open>An iteration whose request fails in the transport.\<close>

definition outage_tick :: "int \<Rightarrow> send_outcome \<Rightarrow> tick" where
  "outage_tick now out = \<lparr>clock = now, fetch = RequestException, send = out\<rparr>"

text \<open>The text \<open>get_api_answer\<close> logs and raises when the transport fails on a request from \<open>ts\<close>.\<close>

definition outage_message :: "runtime \<Rightarrow> pyval \<Rightarrow> pystr" where
  "outage_message rt ts =
     txt_request_error @ ENDPOINT @ txt_request_params @ repr rt (PDict [(ascii ''from_date'', ts)])"

section \<open>Auxiliary facts\<close>

subsection \<open>Results and texts\<close>

lemma raised_simps:
  "raised k (tr, Inl e) = (kind e = k)"
  "raised k (tr, Inr x) = False"
  by (simp_all add: raised_def)

lemma not_delivered: "(out \<noteq> Delivered) = (out = TelegramError)"
  by (cases out) simp_all

lemma str_or_guard: "str_or (ascii ''homework_name'') (ascii ''status'') = ascii ''homework_name''"
  by (simp add: str_or_def ascii_def)

lemma texts_differ: "txt_undocumented \<noteq> txt_missing_keys"
  by (simp add: txt_undocumented_def txt_missing_keys_def)

lemma verdict_keys:
  "map_of HOMEWORK_VERDICTS s \<noteq> None \<longleftrightarrow> s \<in> {ascii ''approved'', ascii ''reviewing'', ascii ''rejected''}"
  by (auto simp: HOMEWORK_VERDICTS_def)

lemma verdict_lookups:
  "map_of HOMEWORK_VERDICTS (ascii ''reviewing'') = Some verdict_reviewing"
  "map_of HOMEWORK_VERDICTS (ascii ''approved'') = Some verdict_approved"
  by (simp_all add: HOMEWORK_VERDICTS_def ascii_def)

lemma sample_keys:
  "ascii ''homeworks'' \<noteq> ascii ''current_date''"
  "ascii ''current_date'' \<noteq> ascii ''homeworks''"
  "ascii ''homework_name'' \<noteq> ascii ''status''"
  "ascii ''status'' \<noteq> ascii ''homework_name''"
  by (simp_all add: ascii_def)

lemma hw1_messages:
  "hw1_message verdict_reviewing \<noteq> []"
  "hw1_message verdict_approved \<noteq> hw1_message verdict_reviewing"
  "hw1_message verdict_reviewing \<noteq> hw1_message verdict_approved"
  by (simp_all add: hw1_message_def txt_changed_def verdict_reviewing_def verdict_approved_def)

subsection \<open>The cases of parse_status on a dictionary\<close>

lemma parse_status_no_name:
  assumes "map_of d (ascii ''homework_name'') = None"
  shows "parse_status rt (PDict d) = ([Log ERROR txt_missing_keys], Inl (Exc KeyError txt_missing_keys))"
  using assms by (simp add: parse_status_def str_in_def str_or_guard Let_def)

lemma parse_status_no_status:
  assumes "map_of d (ascii ''homework_name'') = Some name" and "map_of d (ascii ''status'') = None"
  shows "parse_status rt (PDict d) = ([], Inl (Exc KeyError (ascii ''status'')))"
  using assms by (simp add: parse_status_def str_in_def subscript_def str_or_guard)

lemma parse_status_known:
  assumes "map_of d (ascii ''homework_name'') = Some name"
    and "map_of d (ascii ''status'') = Some (PStr s)"
    and "map_of HOMEWORK_VERDICTS s = Some verdict"
  shows "parse_status rt (PDict d) = ([], Inr (txt_changed @ py_format rt name @ txt_quote_dot @ verdict))"
  using assms by (simp add: parse_status_def str_in_def subscript_def lookup_verdict_def str_or_guard)

lemma parse_status_unhashable:
  assumes "map_of d (ascii ''homework_name'') = Some name"
    and "map_of d (ascii ''status'') = Some v" and "\<not> hashable v"
  shows "parse_status rt (PDict d) = ([], Inl (Exc TypeError (unhashable rt v)))"
  using assms by (cases v) (simp_all add: parse_status_def str_in_def subscript_def lookup_verdict_def str_or_guard hashable_def)

lemma parse_status_unknown:
  assumes "map_of d (ascii ''homework_name'') = Some name"
    and "map_of d (ascii ''status'') = Some v" and "hashable v"
    and "\<forall>s. v = PStr s \<longrightarrow> map_of HOMEWORK_VERDICTS s = None"
  shows "parse_status rt (PDict d) = ([Log ERROR txt_undocumented], Inl (Exc KeyError txt_undocumented))"
  using assms by (cases v) (simp_all add: parse_status_def str_in_def subscript_def lookup_verdict_def str_or_guard hashable_def Let_def)

lemma parse_hw1:
  "map_of HOMEWORK_VERDICTS (ascii status) = Some verdict \<Longrightarrow>
   parse_status rt (PDict [(ascii ''homework_name'', PStr (ascii ''hw1'')), (ascii ''status'', PStr (ascii status))])
    = ([], Inr (hw1_message verdict))"
  by (simp add: parse_status_def str_in_def subscript_def lookup_verdict_def str_or_def py_format_def hw1_message_def ascii_def)

subsection \<open>The exceptions each step can raise\<close>

lemma get_api_answer_kinds:
  "get_api_answer rt now transport ts = (tr, Inl e) \<Longrightarrow> kind e = APIAnswerError \<or> kind e = JSONDecodeError"
  by (auto simp: get_api_answer_def Let_def split: fetch_outcome.splits body.splits if_splits)

lemma check_response_kinds:
  "check_response rt response = (tr, Inl e) \<Longrightarrow> kind e = TypeError \<or> kind e = KeyError"
  by (auto simp: check_response_def Let_def split: pyval.splits option.splits if_splits)

lemma parse_status_kinds:
  "parse_status rt homework = (tr, Inl e) \<Longrightarrow> kind e = TypeError \<or> kind e = KeyError"
  by (auto simp: parse_status_def str_in_def subscript_def lookup_verdict_def Let_def split: pyval.splits option.splits if_splits sum.splits bool.splits)

subsection \<open>Which step sends and which step requests\<close>

lemma send_message_cases:
  "send_message cfg out m =
     ([Log DEBUG (txt_attempt @ m), BotSend (TELEGRAM_CHAT_ID cfg) m]
        @ (if out = Delivered then [Log DEBUG txt_sent] else [Log ERROR txt_send_failure]),
      if out = Delivered then Inr () else Inl (Exc SendMessageError txt_send_failure))"
  by (cases out) (simp_all add: send_message_def Let_def)

lemma sent_texts_append: "sent_texts (xs @ ys) = sent_texts xs @ sent_texts ys"
  by (induction xs rule: sent_texts.induct) simp_all

lemma sent_get_api_answer: "sent_texts (fst (get_api_answer rt now transport ts)) = []"
  by (simp add: get_api_answer_def Let_def split: fetch_outcome.splits body.splits)

lemma sent_check_response: "sent_texts (fst (check_response rt response)) = []"
  by (simp add: check_response_def Let_def split: pyval.splits option.splits)

lemma sent_parse_status: "sent_texts (fst (parse_status rt homework)) = []"
  by (simp add: parse_status_def Let_def split: sum.splits bool.splits option.splits)

lemma sent_check_tokens: "sent_texts (fst (check_tokens cfg)) = []"
  by (simp add: check_tokens_def Let_def)

lemma sent_send_message: "sent_texts (fst (send_message cfg out m)) = [m]"
  by (simp add: send_message_cases)

lemma requested_append: "requested (xs @ ys) = requested xs @ requested ys"
  by (induction xs rule: requested.induct) simp_all

lemma requested_get_api_answer:
  "requested (fst (get_api_answer rt now transport ts)) = [py_or ts (PInt now)]"
  by (simp add: get_api_answer_def Let_def split: fetch_outcome.splits body.splits)

lemma requested_check_response: "requested (fst (check_response rt response)) = []"
  by (simp add: check_response_def Let_def split: pyval.splits option.splits)

lemma requested_parse_status: "requested (fst (parse_status rt homework)) = []"
  by (simp add: parse_status_def Let_def split: sum.splits bool.splits option.splits)

lemma requested_send_message: "requested (fst (send_message cfg out m)) = []"
  by (simp add: send_message_cases)

subsection \<open>One iteration\<close>

text \<open>
  What the body of the \<open>try\<close> has sent and stored, by its result: a \<open>SendMessageError\<close>
  means that the status message was new, is stored and was handed to the bot; any other
  exception means that nothing was sent or stored yet.
\<close>

lemma try_body_summary:
  assumes "try_body rt cfg tk st = (tr, st', r)"
  shows "(case r of
            Inr _ \<Rightarrow> (case formatted_message rt tk st of
                        None \<Rightarrow> sent_texts tr = [] \<and> prev_message st' = prev_message st
                      | Some m \<Rightarrow> prev_message st' = m
                            \<and> sent_texts tr = (if m \<noteq> prev_message st then [m] else []))
          | Inl e \<Rightarrow>
              if kind e = SendMessageError
              then (\<exists>m. formatted_message rt tk st = Some m \<and> m \<noteq> prev_message st
                        \<and> prev_message st' = m \<and> sent_texts tr = [m] \<and> send tk = TelegramError)
              else formatted_message rt tk st = Some (txt_failure @ str_exc rt e)
                   \<and> prev_message st' = prev_message st \<and> sent_texts tr = [])"
proof (cases "get_api_answer rt (clock tk) (fetch tk) (current_timestamp st)")
  case (Pair tr1 r1)
  note g = this
  have s1: "sent_texts tr1 = []" using sent_get_api_answer[of rt "clock tk" "fetch tk" "current_timestamp st"] g by simp
  show ?thesis
  proof (cases r1)
    case (Inl e)
    with g get_api_answer_kinds[of rt "clock tk" "fetch tk" "current_timestamp st" tr1 e] assms s1
    show ?thesis by (auto simp: try_body_def formatted_message_def)
  next
    case (Inr response)
    note r = this
    show ?thesis
    proof (cases "check_response rt response")
      case (Pair tr2 r2)
      note c = this
      have s2: "sent_texts tr2 = []" using sent_check_response[of rt response] c by simp
      show ?thesis
      proof (cases r2)
        case (Inl e)
        with g r c check_response_kinds[of rt response tr2 e] assms s1 s2
        show ?thesis by (auto simp: try_body_def formatted_message_def sent_texts_append)
      next
        case (Inr homeworks)
        note h = this
        show ?thesis
        proof (cases homeworks)
          case Nil
          with g r c h assms s1 s2 show ?thesis
            by (auto simp: try_body_def formatted_message_def sent_texts_append)
        next
          case (Cons homework rest)
          note hs = this
          show ?thesis
          proof (cases "parse_status rt homework")
            case (Pair tr3 r3)
            note p = this
            have s3: "sent_texts tr3 = []" using sent_parse_status[of rt homework] p by simp
            show ?thesis
            proof (cases r3)
              case (Inl e)
              with g r c h hs p parse_status_kinds[of rt homework tr3 e] assms s1 s2 s3
              show ?thesis by (auto simp: try_body_def formatted_message_def sent_texts_append)
            next
              case (Inr message)
              with g r c h hs p assms s1 s2 s3
              show ?thesis
                by (auto simp: try_body_def formatted_message_def sent_texts_append send_message_cases Let_def not_delivered
                      split: if_splits)
            qed
          qed
        qed
      qed
    qed
  qed
qed

lemma iteration_summary:
  assumes "iteration rt cfg tk st = (tr, st', x)"
  shows "(case formatted_message rt tk st of
            None \<Rightarrow> sent_texts tr = [] \<and> prev_message st' = prev_message st
          | Some m \<Rightarrow> prev_message st' = m
                \<and> sent_texts tr = (if m \<noteq> prev_message st then [m] else []))"
proof (cases "try_body rt cfg tk st")
  case (fields tr0 st0 r)
  note t = this
  note s = try_body_summary [OF t]
  show ?thesis
  proof (cases r)
    case (Inr u)
    with assms t s show ?thesis
      by (auto simp: iteration_def handlers_def sent_texts_append split: option.splits)
  next
    case (Inl e)
    with assms t s show ?thesis
      by (auto simp: iteration_def handlers_def sent_texts_append send_message_cases Let_def
            split: option.splits if_splits)
  qed
qed

lemma iteration_step:
  assumes "iteration rt cfg tk st = (tr, st', x)"
  shows "(sent_texts tr = [] \<and> prev_message st' = prev_message st)
         \<or> (sent_texts tr = [prev_message st'] \<and> prev_message st' \<noteq> prev_message st)"
  using iteration_summary [OF assms] by (auto split: option.splits if_splits)

lemma try_body_cursor:
  assumes "try_body rt cfg tk st = (tr, st', r)"
  shows "current_timestamp st' = next_cursor rt tk st
         \<and> requested tr = [py_or (current_timestamp st) (PInt (clock tk))]"
proof -
  obtain tr1 r1 where g: "get_api_answer rt (clock tk) (fetch tk) (current_timestamp st) = (tr1, r1)"
    by (cases "get_api_answer rt (clock tk) (fetch tk) (current_timestamp st)") auto
  have q1: "requested tr1 = [py_or (current_timestamp st) (PInt (clock tk))]"
    using requested_get_api_answer [of rt "clock tk" "fetch tk" "current_timestamp st"] g by simp
  show ?thesis
  proof (cases r1)
    case (Inl e)
    with g q1 assms show ?thesis by (auto simp: try_body_def next_cursor_def)
  next
    case (Inr response)
    obtain tr2 r2 where c: "check_response rt response = (tr2, r2)"
      by (cases "check_response rt response") auto
    have q2: "requested tr2 = []" using requested_check_response [of rt response] c by simp
    show ?thesis
    proof (cases r2)
      case (Inl e)
      with g Inr c q1 q2 assms show ?thesis
        by (auto simp: try_body_def next_cursor_def requested_append)
    next
      case hw: (Inr homeworks)
      show ?thesis
      proof (cases homeworks)
        case Nil
        with g Inr c hw q1 q2 assms show ?thesis
          by (auto simp: try_body_def next_cursor_def requested_append)
      next
        case (Cons homework rest)
        obtain tr3 r3 where p: "parse_status rt homework = (tr3, r3)"
          by (cases "parse_status rt homework") auto
        have q3: "requested tr3 = []" using requested_parse_status [of rt homework] p by simp
        from g Inr c hw Cons p q1 q2 q3 assms show ?thesis
          by (cases r3)
             (auto simp: try_body_def next_cursor_def requested_append send_message_cases Let_def
                split: if_splits)
      qed
    qed
  qed
qed

lemma iteration_cursor:
  assumes "iteration rt cfg tk st = (tr, st', x)"
  shows "current_timestamp st' = next_cursor rt tk st
         \<and> requested tr = [py_or (current_timestamp st) (PInt (clock tk))]"
proof -
  obtain tr0 st0 r where t: "try_body rt cfg tk st = (tr0, st0, r)"
    by (cases "try_body rt cfg tk st") auto
  from try_body_cursor [OF t] assms t show ?thesis
    by (cases r)
       (auto simp: iteration_def handlers_def requested_append send_message_cases Let_def
          split: if_splits)
qed

subsection \<open>The loop\<close>

lemma main_loop_sent:
  "main_loop rt cfg st tks = (tr, out) \<Longrightarrow>
     distinct_adj (sent_texts tr) \<and> (sent_texts tr \<noteq> [] \<longrightarrow> hd (sent_texts tr) \<noteq> prev_message st)"
proof (induction tks arbitrary: st tr out)
  case Nil
  then show ?case by simp
next
  case (Cons tk tks)
  obtain tr1 st1 x where it: "iteration rt cfg tk st = (tr1, st1, x)"
    by (cases "iteration rt cfg tk st") auto
  note step = iteration_step [OF it]
  show ?case
  proof (cases x)
    case (Some e)
    with Cons.prems it have "tr = tr1" by simp
    with step show ?thesis by auto
  next
    case None
    obtain tr2 out2 where rest: "main_loop rt cfg st1 tks = (tr2, out2)"
      by (cases "main_loop rt cfg st1 tks") auto
    from Cons.prems it None rest have tr: "tr = tr1 @ tr2" by simp
    note ih = Cons.IH [OF rest]
    from step ih show ?thesis
      unfolding tr sent_texts_append
      by (cases "sent_texts tr2") (auto simp: distinct_adj_Cons)
  qed
qed

lemma main_loop_not_exit: "main_loop rt cfg st tks \<noteq> (tr, SysExit m)"
proof (induction tks arbitrary: st tr)
  case Nil
  show ?case by simp
next
  case (Cons tk tks)
  show ?case
    using Cons.IH by (auto split: prod.splits option.splits)
qed

subsection \<open>The sample iterations\<close>

lemma try_body_status:
  assumes "map_of HOMEWORK_VERDICTS (ascii status) = Some verdict" and "truthy c"
  shows "try_body rt cfg (status_tick status date out) \<lparr>current_timestamp = c, prev_message = p\<rparr>
    = (if hw1_message verdict \<noteq> p
       then ([HttpGet c] @ fst (send_message cfg out (hw1_message verdict)),
             \<lparr>current_timestamp = PInt date, prev_message = hw1_message verdict\<rparr>,
             snd (send_message cfg out (hw1_message verdict)))
       else ([HttpGet c], \<lparr>current_timestamp = PInt date, prev_message = p\<rparr>, Inr ()))"
  using assms
  by (simp add: try_body_def status_tick_def status_response_def get_api_answer_def py_or_def
       check_response_def dict_get_def parse_hw1 Let_def split: prod.splits)
     (simp add: ascii_def)

lemma iteration_status:
  assumes "map_of HOMEWORK_VERDICTS (ascii status) = Some verdict" and "truthy c"
  shows "iteration rt cfg (status_tick status date out) \<lparr>current_timestamp = c, prev_message = p\<rparr>
    = (if hw1_message verdict \<noteq> p
       then ([HttpGet c, Log DEBUG (txt_attempt @ hw1_message verdict),
              BotSend (TELEGRAM_CHAT_ID cfg) (hw1_message verdict)]
              @ (if out = Delivered then [Log DEBUG txt_sent]
                 else [Log ERROR txt_send_failure, Log ERROR txt_send_failure])
              @ [Sleep RETRY_PERIOD],
             \<lparr>current_timestamp = PInt date, prev_message = hw1_message verdict\<rparr>, None)
       else ([HttpGet c, Sleep RETRY_PERIOD], \<lparr>current_timestamp = PInt date, prev_message = p\<rparr>, None))"
  by (simp add: iteration_def try_body_status [OF assms] handlers_def send_message_cases)

lemma formatted_status:
  assumes "map_of HOMEWORK_VERDICTS (ascii status) = Some verdict" and "truthy c"
  shows "formatted_message rt (status_tick status date out) \<lparr>current_timestamp = c, prev_message = p\<rparr>
           = Some (hw1_message verdict)"
  using assms
  by (simp add: formatted_message_def status_tick_def status_response_def get_api_answer_def py_or_def
       check_response_def parse_hw1 sample_keys Let_def)

lemma iteration_quiet:
  "iteration rt cfg (quiet_tick now date) \<lparr>current_timestamp = c, prev_message = p\<rparr>
    = ([HttpGet (if truthy c then c else PInt now), Log DEBUG txt_no_new, Sleep RETRY_PERIOD],
       \<lparr>current_timestamp = (case date of None \<Rightarrow> c | Some v \<Rightarrow> v), prev_message = p\<rparr>, None)"
  by (cases date)
     (simp_all add: iteration_def try_body_def handlers_def quiet_tick_def get_api_answer_def py_or_def
        check_response_def dict_get_def sample_keys Let_def)

lemma try_body_outage:
  "try_body rt cfg (outage_tick now out) \<lparr>current_timestamp = PInt c, prev_message = p\<rparr>
    = ([HttpGet (if c \<noteq> 0 then PInt c else PInt now),
        Log ERROR (txt_request_error @ ENDPOINT @ txt_request_params
                   @ repr rt (PDict [(ascii ''from_date'', if c \<noteq> 0 then PInt c else PInt now)]))],
       \<lparr>current_timestamp = PInt c, prev_message = p\<rparr>,
       Inl (Exc APIAnswerError (txt_request_error @ ENDPOINT @ txt_request_params
                   @ repr rt (PDict [(ascii ''from_date'', if c \<noteq> 0 then PInt c else PInt now)]))))"
  by (simp add: try_body_def outage_tick_def get_api_answer_def py_or_def py_format_def Let_def)

lemma sample_tokens: "snd (check_tokens sample_config)" "fst (check_tokens sample_config) = []"
  by (simp_all add: check_tokens_def sample_config_def Let_def)

lemma sample_chat: "TELEGRAM_CHAT_ID sample_config = Some (ascii ''42'')"
  by (simp add: sample_config_def)

lemma main_sample:
  "main rt sample_config start ticks
     = main_loop rt sample_config \<lparr>current_timestamp = PInt start, prev_message = []\<rparr> ticks"
  by (simp add: main_def check_tokens_def sample_config_def Let_def split: prod.splits)

lemma send_outage: "send (outage_tick now out) = out"
  by (simp add: outage_tick_def)

lemma txt_failure_nonempty: "txt_failure \<noteq> []"
  by (simp add: txt_failure_def)

lemma try_body_outage_message:
  assumes "c \<noteq> 0"
  shows "try_body rt cfg (outage_tick now out) \<lparr>current_timestamp = PInt c, prev_message = p\<rparr>
    = ([HttpGet (PInt c), Log ERROR (outage_message rt (PInt c))],
       \<lparr>current_timestamp = PInt c, prev_message = p\<rparr>,
       Inl (Exc APIAnswerError (outage_message rt (PInt c))))"
  using assms by (simp add: try_body_outage outage_message_def)

lemma try_body_status_failed:
  assumes "map_of HOMEWORK_VERDICTS (ascii status) = Some verdict" and "truthy c"
    and "hw1_message verdict \<noteq> p"
  shows "try_body rt cfg (status_tick status date TelegramError) \<lparr>current_timestamp = c, prev_message = p\<rparr>
    = ([HttpGet c, Log DEBUG (txt_attempt @ hw1_message verdict),
        BotSend (TELEGRAM_CHAT_ID cfg) (hw1_message verdict), Log ERROR txt_send_failure],
       \<lparr>current_timestamp = PInt date, prev_message = hw1_message verdict\<rparr>,
       Inl (Exc SendMessageError txt_send_failure))"
  using assms by (simp add: try_body_status send_message_cases)

section \<open>The claims\<close>

subsection \<open>C1: deduplication\<close>

text \<open>
  C1. In every run of \<open>main\<close>, over any number of iterations and whatever the environment
  answers, no two consecutive calls of the Notifier carry the same text. A message is
  sent only when it differs from the stored \<open>prev_message\<close>. When two consecutive
  iterations format the same message (a status notification or an error notification),
  the Notifier is called at most once over both.
\<close>

theorem dedup_invariant:
  "distinct_adj (sent_texts (fst (main rt cfg start ticks)))
   \<and> (\<forall>tk st. \<forall>m \<in> set (sent_texts (fst (iteration rt cfg tk st))). m \<noteq> prev_message st)
   \<and> (\<forall>tk1 tk2 st m tr1 st1 tr2 st2 x.
         formatted_message rt tk1 st = Some m \<and> iteration rt cfg tk1 st = (tr1, st1, None)
         \<and> formatted_message rt tk2 st1 = Some m \<and> iteration rt cfg tk2 st1 = (tr2, st2, x)
         \<longrightarrow> length (sent_texts (tr1 @ tr2)) \<le> 1)"
proof (intro conjI allI impI ballI)
  show "distinct_adj (sent_texts (fst (main rt cfg start ticks)))"
  proof (cases "snd (check_tokens cfg)")
    case False
    then show ?thesis
      using sent_check_tokens [of cfg]
      by (cases "check_tokens cfg") (simp add: main_def)
  next
    case True
    obtain tr out where run:
      "main_loop rt cfg \<lparr>current_timestamp = PInt start, prev_message = []\<rparr> ticks = (tr, out)"
      by (cases "main_loop rt cfg \<lparr>current_timestamp = PInt start, prev_message = []\<rparr> ticks") auto
    from True run show ?thesis
      using sent_check_tokens [of cfg] main_loop_sent [OF run]
      by (cases "check_tokens cfg") (simp add: main_def sent_texts_append)
  qed
next
  fix tk st m
  assume m: "m \<in> set (sent_texts (fst (iteration rt cfg tk st)))"
  obtain tr st' x where it: "iteration rt cfg tk st = (tr, st', x)"
    by (cases "iteration rt cfg tk st") auto
  from iteration_step [OF it] m it show "m \<noteq> prev_message st" by auto
next
  fix tk1 tk2 st m tr1 st1 tr2 st2 x
  assume a: "formatted_message rt tk1 st = Some m \<and> iteration rt cfg tk1 st = (tr1, st1, None)
         \<and> formatted_message rt tk2 st1 = Some m \<and> iteration rt cfg tk2 st1 = (tr2, st2, x)"
  from a iteration_summary [of rt cfg tk1 st tr1 st1 None]
  have 1: "prev_message st1 = m" "length (sent_texts tr1) \<le> 1" by auto
  from a iteration_summary [of rt cfg tk2 st1 tr2 st2 x] 1
  have 2: "sent_texts tr2 = []" by auto
  from 1 2 show "length (sent_texts (tr1 @ tr2)) \<le> 1" by (simp add: sent_texts_append)
qed

text \<open>
  The end-to-end case of the spec: the same \<open>reviewing\<close> response in two consecutive
  iterations is sent once, in the first.
\<close>

theorem dedup_invariant_witness:
  "distinct_adj (sent_texts (fst (main sample_runtime sample_config 1000
       [status_tick ''reviewing'' 1500 Delivered, status_tick ''reviewing'' 2100 Delivered])))
   \<and> sent_texts (fst (main sample_runtime sample_config 1000
       [status_tick ''reviewing'' 1500 Delivered, status_tick ''reviewing'' 2100 Delivered]))
       = [hw1_message verdict_reviewing]
   \<and> formatted_message sample_runtime (status_tick ''reviewing'' 1500 Delivered)
         \<lparr>current_timestamp = PInt 1000, prev_message = []\<rparr> = Some (hw1_message verdict_reviewing)
   \<and> iteration sample_runtime sample_config (status_tick ''reviewing'' 1500 Delivered)
         \<lparr>current_timestamp = PInt 1000, prev_message = []\<rparr>
       = ([HttpGet (PInt 1000), Log DEBUG (txt_attempt @ hw1_message verdict_reviewing),
           BotSend (Some (ascii ''42'')) (hw1_message verdict_reviewing), Log DEBUG txt_sent,
           Sleep 600],
          \<lparr>current_timestamp = PInt 1500, prev_message = hw1_message verdict_reviewing\<rparr>, None)
   \<and> formatted_message sample_runtime (status_tick ''reviewing'' 2100 Delivered)
         \<lparr>current_timestamp = PInt 1500, prev_message = hw1_message verdict_reviewing\<rparr>
       = Some (hw1_message verdict_reviewing)
   \<and> iteration sample_runtime sample_config (status_tick ''reviewing'' 2100 Delivered)
         \<lparr>current_timestamp = PInt 1500, prev_message = hw1_message verdict_reviewing\<rparr>
       = ([HttpGet (PInt 1500), Sleep 600],
          \<lparr>current_timestamp = PInt 2100, prev_message = hw1_message verdict_reviewing\<rparr>, None)
   \<and> length (sent_texts
         ([HttpGet (PInt 1000), Log DEBUG (txt_attempt @ hw1_message verdict_reviewing),
           BotSend (Some (ascii ''42'')) (hw1_message verdict_reviewing), Log DEBUG txt_sent,
           Sleep 600] @ [HttpGet (PInt 1500), Sleep 600])) \<le> 1"
proof -
  let ?t1 = "status_tick ''reviewing'' 1500 Delivered"
  let ?t2 = "status_tick ''reviewing'' 2100 Delivered"
  let ?s0 = "\<lparr>current_timestamp = PInt 1000, prev_message = []\<rparr>"
  let ?s1 = "\<lparr>current_timestamp = PInt 1500, prev_message = hw1_message verdict_reviewing\<rparr>"
  let ?s2 = "\<lparr>current_timestamp = PInt 2100, prev_message = hw1_message verdict_reviewing\<rparr>"
  let ?tr1 = "[HttpGet (PInt 1000), Log DEBUG (txt_attempt @ hw1_message verdict_reviewing),
           BotSend (Some (ascii ''42'')) (hw1_message verdict_reviewing), Log DEBUG txt_sent,
           Sleep 600]"
  let ?tr2 = "[HttpGet (PInt 1500), Sleep 600]"
  note d = dedup_invariant [of sample_runtime sample_config 1000 "[?t1, ?t2]"]
  have f1: "formatted_message sample_runtime ?t1 ?s0 = Some (hw1_message verdict_reviewing)"
    by (simp add: formatted_status verdict_lookups)
  have i1: "iteration sample_runtime sample_config ?t1 ?s0 = (?tr1, ?s1, None)"
    by (simp add: iteration_status verdict_lookups hw1_messages sample_chat RETRY_PERIOD_def)
  have f2: "formatted_message sample_runtime ?t2 ?s1 = Some (hw1_message verdict_reviewing)"
    by (simp add: formatted_status verdict_lookups)
  have i2: "iteration sample_runtime sample_config ?t2 ?s1 = (?tr2, ?s2, None)"
    by (simp add: iteration_status verdict_lookups RETRY_PERIOD_def)
  have run: "sent_texts (fst (main sample_runtime sample_config 1000 [?t1, ?t2]))
       = [hw1_message verdict_reviewing]"
    by (simp add: main_sample i1 i2)
  from d have adj: "distinct_adj (sent_texts (fst (main sample_runtime sample_config 1000 [?t1, ?t2])))"
    by (rule conjunct1)
  from d have "\<forall>tk1 tk2 st m tr1 st1 tr2 st2 x.
         formatted_message sample_runtime tk1 st = Some m
         \<and> iteration sample_runtime sample_config tk1 st = (tr1, st1, None)
         \<and> formatted_message sample_runtime tk2 st1 = Some m
         \<and> iteration sample_runtime sample_config tk2 st1 = (tr2, st2, x)
         \<longrightarrow> length (sent_texts (tr1 @ tr2)) \<le> 1"
    by (elim conjE)
  note inst = this [rule_format, of ?t1 ?s0 "hw1_message verdict_reviewing" ?tr1 ?s1 ?t2 ?tr2 ?s2 None]
  have once: "length (sent_texts (?tr1 @ ?tr2)) \<le> 1"
    by (rule inst) (intro conjI f1 i1 f2 i2)
  show ?thesis
    by (intro conjI) (rule adj run f1 i1 f2 i2 once)+
qed

subsection \<open>C2: the poll cursor\<close>

text \<open>
  C2, as the code has it. The cursor starts as the time read at startup. An iteration
  sets it to the \<open>current_date\<close> of the response when the fetch returned a body that
  passed \<open>check_response\<close> and has that key, and leaves it unchanged otherwise; the
  value is stored as it comes, without comparing it with the old cursor. Each iteration
  issues one request, whose \<open>from_date\<close> is the cursor when the cursor is true, and the
  client's clock when it is false (\<open>0\<close>, \<open>None\<close>, empty).
\<close>

theorem cursor_update:
  "(snd (check_tokens cfg)
      \<longrightarrow> main rt cfg start [] = ([], Polling \<lparr>current_timestamp = PInt start, prev_message = []\<rparr>))
   \<and> (\<forall>tr st' x. iteration rt cfg tk st = (tr, st', x)
        \<longrightarrow> current_timestamp st' = next_cursor rt tk st
          \<and> requested tr = [if truthy (current_timestamp st) then current_timestamp st
                             else PInt (clock tk)])"
proof (intro conjI allI impI)
  assume "snd (check_tokens cfg)"
  then show "main rt cfg start [] = ([], Polling \<lparr>current_timestamp = PInt start, prev_message = []\<rparr>)"
    by (cases "check_tokens cfg") (auto simp: main_def check_tokens_def Let_def split: if_splits)
next
  fix tr st' x assume "iteration rt cfg tk st = (tr, st', x)"
  from iteration_cursor [OF this]
  show "current_timestamp st' = next_cursor rt tk st" by simp
next
  fix tr st' x assume "iteration rt cfg tk st = (tr, st', x)"
  from iteration_cursor [OF this]
  show "requested tr = [if truthy (current_timestamp st) then current_timestamp st
                             else PInt (clock tk)]" by (simp add: py_or_def)
qed

text \<open>
  With all tokens set the cursor starts at the startup time 1000; a response with
  \<open>current_date = 1500\<close> is requested from 1000 and moves the cursor to 1500.
\<close>

theorem cursor_update_witness:
  "snd (check_tokens sample_config)
   \<and> main sample_runtime sample_config 1000 []
       = ([], Polling \<lparr>current_timestamp = PInt 1000, prev_message = []\<rparr>)
   \<and> iteration sample_runtime sample_config (quiet_tick 1600 (Some (PInt 1500)))
         \<lparr>current_timestamp = PInt 1000, prev_message = []\<rparr>
       = ([HttpGet (PInt 1000), Log DEBUG txt_no_new, Sleep 600],
          \<lparr>current_timestamp = PInt 1500, prev_message = []\<rparr>, None)
   \<and> PInt 1500 = next_cursor sample_runtime (quiet_tick 1600 (Some (PInt 1500)))
         \<lparr>current_timestamp = PInt 1000, prev_message = []\<rparr>
   \<and> requested [HttpGet (PInt 1000), Log DEBUG txt_no_new, Sleep 600] = [PInt 1000]"
proof -
  let ?tk = "quiet_tick 1600 (Some (PInt 1500))"
  let ?s0 = "\<lparr>current_timestamp = PInt 1000, prev_message = []\<rparr>"
  let ?s1 = "\<lparr>current_timestamp = PInt 1500, prev_message = []\<rparr>"
  let ?tr = "[HttpGet (PInt 1000), Log DEBUG txt_no_new, Sleep 600]"
  note c = cursor_update [of sample_config sample_runtime 1000 ?tk ?s0]
  have tok: "snd (check_tokens sample_config)" by (rule sample_tokens)
  from c [THEN conjunct1] tok
  have start: "main sample_runtime sample_config 1000 [] = ([], Polling ?s0)" by (rule mp)
  have it: "iteration sample_runtime sample_config ?tk ?s0 = (?tr, ?s1, None)"
    by (simp add: iteration_quiet RETRY_PERIOD_def)
  from c [THEN conjunct2, rule_format, of ?tr ?s1 None, OF it]
  have "current_timestamp ?s1 = next_cursor sample_runtime ?tk ?s0
     \<and> requested ?tr = [if truthy (current_timestamp ?s0) then current_timestamp ?s0 else PInt (clock ?tk)]" .
  then have nc: "PInt 1500 = next_cursor sample_runtime ?tk ?s0" and rq: "requested ?tr = [PInt 1000]"
    by simp_all
  show ?thesis
    by (intro conjI) (rule tok start it nc rq)+
qed

text \<open>
  The cursor is not monotone and the client's clock can come back: started at 1000, the
  server answers \<open>current_date = 500\<close>, then \<open>0\<close>. The second request asks from 500,
  before the start; the third asks from the client's clock 2800, not from the cursor 0
  that the server supplied.
\<close>

theorem cursor_moves_back:
  "main sample_runtime sample_config 1000
      [quiet_tick 1600 (Some (PInt 500)), quiet_tick 2200 (Some (PInt 0)), quiet_tick 2800 None]
    = ([HttpGet (PInt 1000), Log DEBUG txt_no_new, Sleep 600,
        HttpGet (PInt 500), Log DEBUG txt_no_new, Sleep 600,
        HttpGet (PInt 2800), Log DEBUG txt_no_new, Sleep 600],
       Polling \<lparr>current_timestamp = PInt 0, prev_message = []\<rparr>)"
  by (simp add: main_sample iteration_quiet RETRY_PERIOD_def)

subsection \<open>C3: parse_status\<close>

text \<open>
  C3. A homework record is a dictionary whose status, when it is there, is a string
  (section 3 of the spec). For a record with both keys whose status is a key of the
  verdict table (\<open>approved\<close>, \<open>reviewing\<close>, \<open>rejected\<close>), \<open>parse_status\<close> returns exactly
  the text of line 126 (its fixed parts are \<open>txt_changed\<close> and \<open>txt_quote_dot\<close>, given by
  their code points) around the name with the verdict of the table, without logging; for
  \<open>{'homework_name': 'hw1', 'status': 'approved'}\<close> that is the text of the spec. For every
  record whose status is a string that is none of the three keys, \<open>parse_status\<close> fails
  with a \<open>KeyError\<close>, whether \<open>homework_name\<close> is there or not. The same holds for a
  status that is absent and for every other value the table can hash (a number, a
  boolean, \<open>None\<close>).
\<close>

theorem parse_status_contract:
  "(\<forall>name s verdict.
       map_of d (ascii ''homework_name'') = Some name \<and> map_of d (ascii ''status'') = Some (PStr s)
       \<and> map_of HOMEWORK_VERDICTS s = Some verdict
       \<longrightarrow> parse_status rt (PDict d)
            = ([], Inr (txt_changed @ py_format rt name @ txt_quote_dot @ verdict)))
   \<and> (\<forall>s. map_of HOMEWORK_VERDICTS s \<noteq> None
           \<longleftrightarrow> s \<in> {ascii ''approved'', ascii ''reviewing'', ascii ''rejected''})
   \<and> parse_status rt (PDict [(ascii ''homework_name'', PStr (ascii ''hw1'')),
                              (ascii ''status'', PStr (ascii ''approved''))])
       = ([], Inr [1048, 1079, 1084, 1077, 1085, 1080, 1083, 1089, 1103, 32, 1089, 1090, 1072,
                   1090, 1091, 1089, 32, 1087, 1088, 1086, 1074, 1077, 1088, 1082, 1080, 32,
                   1088, 1072, 1073, 1086, 1090, 1099, 32, 34, 104, 119, 49, 34, 46, 32, 1056,
                   1072, 1073, 1086, 1090, 1072, 32, 1087, 1088, 1086, 1074, 1077, 1088, 1077,
                   1085, 1072, 58, 32, 1088, 1077, 1074, 1100, 1102, 1077, 1088, 1091, 32, 1074,
                   1089, 1105, 32, 1087, 1086, 1085, 1088, 1072, 1074, 1080, 1083, 1086, 1089,
                   1100, 46, 32, 1059, 1088, 1072, 33])
   \<and> (\<forall>v. map_of d (ascii ''status'') = Some v \<and> hashable v
            \<and> (\<forall>s. v = PStr s \<longrightarrow> map_of HOMEWORK_VERDICTS s = None)
          \<longrightarrow> raised KeyError (parse_status rt (PDict d)))
   \<and> (map_of d (ascii ''status'') = None \<longrightarrow> raised KeyError (parse_status rt (PDict d)))
   \<and> (\<forall>s. map_of d (ascii ''status'') = Some (PStr s)
            \<and> s \<notin> {ascii ''approved'', ascii ''reviewing'', ascii ''rejected''}
          \<longrightarrow> raised KeyError (parse_status rt (PDict d)))"
proof (intro conjI allI impI)
  fix name s verdict
  assume "map_of d (ascii ''homework_name'') = Some name \<and> map_of d (ascii ''status'') = Some (PStr s)
       \<and> map_of HOMEWORK_VERDICTS s = Some verdict"
  then show "parse_status rt (PDict d) = ([], Inr (txt_changed @ py_format rt name @ txt_quote_dot @ verdict))"
    by (simp add: parse_status_known)
next
  fix s show "map_of HOMEWORK_VERDICTS s \<noteq> None \<longleftrightarrow> s \<in> {ascii ''approved'', ascii ''reviewing'', ascii ''rejected''}"
    by (rule verdict_keys)
next
  show "parse_status rt (PDict [(ascii ''homework_name'', PStr (ascii ''hw1'')),
                              (ascii ''status'', PStr (ascii ''approved''))])
       = ([], Inr [1048, 1079, 1084, 1077, 1085, 1080, 1083, 1089, 1103, 32, 1089, 1090, 1072,
                   1090, 1091, 1089, 32, 1087, 1088, 1086, 1074, 1077, 1088, 1082, 1080, 32,
                   1088, 1072, 1073, 1086, 1090, 1099, 32, 34, 104, 119, 49, 34, 46, 32, 1056,
                   1072, 1073, 1086, 1090, 1072, 32, 1087, 1088, 1086, 1074, 1077, 1088, 1077,
                   1085, 1072, 58, 32, 1088, 1077, 1074, 1100, 1102, 1077, 1088, 1091, 32, 1074,
                   1089, 1105, 32, 1087, 1086, 1085, 1088, 1072, 1074, 1080, 1083, 1086, 1089,
                   1100, 46, 32, 1059, 1088, 1072, 33])"
    by (simp add: parse_status_def str_in_def subscript_def lookup_verdict_def str_or_guard
        HOMEWORK_VERDICTS_def py_format_def txt_changed_def txt_quote_dot_def verdict_approved_def ascii_def str_or_def)
next
  fix v
  assume a: "map_of d (ascii ''status'') = Some v \<and> hashable v
            \<and> (\<forall>s. v = PStr s \<longrightarrow> map_of HOMEWORK_VERDICTS s = None)"
  show "raised KeyError (parse_status rt (PDict d))"
  proof (cases "map_of d (ascii ''homework_name'')")
    case None
    then show ?thesis
      by (simp add: parse_status_no_name raised_simps)
  next
    case (Some name)
    with a show ?thesis by (simp add: parse_status_unknown raised_simps)
  qed
next
  assume "map_of d (ascii ''status'') = None"
  then show "raised KeyError (parse_status rt (PDict d))"
    by (cases "map_of d (ascii ''homework_name'')")
       (simp_all add: parse_status_no_name parse_status_no_status raised_simps)
next
  fix s
  assume a: "map_of d (ascii ''status'') = Some (PStr s)
            \<and> s \<notin> {ascii ''approved'', ascii ''reviewing'', ascii ''rejected''}"
  with verdict_keys [of s] have unknown: "map_of HOMEWORK_VERDICTS s = None"
    by blast
  show "raised KeyError (parse_status rt (PDict d))"
  proof (cases "map_of d (ascii ''homework_name'')")
    case None
    then show ?thesis
      by (simp add: parse_status_no_name raised_simps)
  next
    case (Some name)
    with a unknown show ?thesis
      by (simp add: parse_status_unknown raised_simps hashable_def)
  qed
qed

text \<open>
  A known status, an unknown string with and without a homework name, \<open>None\<close>, and no
  status at all.
\<close>

theorem parse_status_contract_witness:
  "parse_status sample_runtime
      (PDict [(ascii ''homework_name'', PStr (ascii ''hw1'')), (ascii ''status'', PStr (ascii ''rejected''))])
     = ([], Inr (txt_changed @ ascii ''hw1'' @ txt_quote_dot @ verdict_rejected))
   \<and> raised KeyError (parse_status sample_runtime
      (PDict [(ascii ''homework_name'', PStr (ascii ''hw1'')), (ascii ''status'', PStr (ascii ''resubmitted''))]))
   \<and> raised KeyError (parse_status sample_runtime
      (PDict [(ascii ''homework_name'', PStr (ascii ''hw1'')), (ascii ''status'', PNone)]))
   \<and> raised KeyError (parse_status sample_runtime
      (PDict [(ascii ''homework_name'', PStr (ascii ''hw1''))]))
   \<and> raised KeyError (parse_status sample_runtime
      (PDict [(ascii ''status'', PStr (ascii ''resubmitted''))]))"
proof -
  let ?name = "(ascii ''homework_name'', PStr (ascii ''hw1''))"
  have rej: "map_of HOMEWORK_VERDICTS (ascii ''rejected'') = Some verdict_rejected"
    by (simp add: HOMEWORK_VERDICTS_def ascii_def)
  have new: "ascii ''resubmitted'' \<notin> {ascii ''approved'', ascii ''reviewing'', ascii ''rejected''}"
    by (simp add: ascii_def)
  have 1: "parse_status sample_runtime (PDict [?name, (ascii ''status'', PStr (ascii ''rejected''))])
     = ([], Inr (txt_changed @ ascii ''hw1'' @ txt_quote_dot @ verdict_rejected))"
    using parse_status_contract [of "[?name, (ascii ''status'', PStr (ascii ''rejected''))]" sample_runtime]
      rej
    by (simp add: sample_keys py_format_def)
  have 2: "raised KeyError (parse_status sample_runtime
      (PDict [?name, (ascii ''status'', PStr (ascii ''resubmitted''))]))"
    using parse_status_contract [of "[?name, (ascii ''status'', PStr (ascii ''resubmitted''))]" sample_runtime]
      new
    by (simp add: sample_keys)
  have 3: "raised KeyError (parse_status sample_runtime (PDict [?name, (ascii ''status'', PNone)]))"
    using parse_status_contract [of "[?name, (ascii ''status'', PNone)]" sample_runtime]
    by (simp add: sample_keys hashable_def)
  have 4: "raised KeyError (parse_status sample_runtime (PDict [?name]))"
    using parse_status_contract [of "[?name]" sample_runtime]
    by (simp add: sample_keys)
  have 5: "raised KeyError (parse_status sample_runtime
      (PDict [(ascii ''status'', PStr (ascii ''resubmitted''))]))"
    using parse_status_contract [of "[(ascii ''status'', PStr (ascii ''resubmitted''))]" sample_runtime]
      new
    by simp
  show ?thesis
    by (intro conjI) (rule 1 2 3 4 5)+
qed

subsection \<open>C4: check_response\<close>

text \<open>
  C4. \<open>check_response\<close> fails with a \<open>TypeError\<close> on an input that is no dictionary, with
  a \<open>KeyError\<close> on a dictionary without the key \<open>homeworks\<close>, and with a \<open>TypeError\<close> on
  a dictionary whose \<open>homeworks\<close> is no list. On \<open>{'homeworks': []}\<close> it returns the empty
  list without raising, after one debug record. On every dictionary whose \<open>homeworks\<close>
  is a list it returns that list.
\<close>

theorem check_response_contract:
  "((\<forall>d. response \<noteq> PDict d) \<longrightarrow> raised TypeError (check_response rt response))
   \<and> (\<forall>d. map_of d (ascii ''homeworks'') = None \<longrightarrow> raised KeyError (check_response rt (PDict d)))
   \<and> (\<forall>d v. map_of d (ascii ''homeworks'') = Some v \<and> (\<forall>xs. v \<noteq> PList xs)
          \<longrightarrow> raised TypeError (check_response rt (PDict d)))
   \<and> check_response rt (PDict [(ascii ''homeworks'', PList [])]) = ([Log DEBUG txt_no_new], Inr [])
   \<and> (\<forall>d xs. map_of d (ascii ''homeworks'') = Some (PList xs)
          \<longrightarrow> snd (check_response rt (PDict d)) = Inr xs)"
proof (intro conjI allI impI)
  assume "\<forall>d. response \<noteq> PDict d"
  then show "raised TypeError (check_response rt response)"
    by (cases response) (simp_all add: check_response_def raised_simps Let_def)
next
  fix d :: "(pystr \<times> pyval) list" assume "map_of d (ascii ''homeworks'') = None"
  then show "raised KeyError (check_response rt (PDict d))"
    by (simp add: check_response_def raised_simps Let_def)
next
  fix d :: "(pystr \<times> pyval) list" and v assume "map_of d (ascii ''homeworks'') = Some v \<and> (\<forall>xs. v \<noteq> PList xs)"
  then show "raised TypeError (check_response rt (PDict d))"
    by (cases v) (simp_all add: check_response_def raised_simps Let_def)
next
  show "check_response rt (PDict [(ascii ''homeworks'', PList [])]) = ([Log DEBUG txt_no_new], Inr [])"
    by (simp add: check_response_def)
next
  fix d :: "(pystr \<times> pyval) list" and xs assume "map_of d (ascii ''homeworks'') = Some (PList xs)"
  then show "snd (check_response rt (PDict d)) = Inr xs"
    by (simp add: check_response_def)
qed

text \<open>The four cases on a list, on dictionaries without the key and with a string, and on a list of one.\<close>

theorem check_response_contract_witness:
  "raised TypeError (check_response sample_runtime (PList []))
   \<and> raised KeyError (check_response sample_runtime (PDict [(ascii ''current_date'', PInt 7)]))
   \<and> raised TypeError (check_response sample_runtime (PDict [(ascii ''homeworks'', PStr (ascii ''none''))]))
   \<and> snd (check_response sample_runtime
            (PDict [(ascii ''homeworks'', PList [PInt 1]), (ascii ''current_date'', PInt 7)])) = Inr [PInt 1]"
proof -
  note c = check_response_contract [of "PList []" sample_runtime]
  have 1: "raised TypeError (check_response sample_runtime (PList []))"
    using c by simp
  have 2: "raised KeyError (check_response sample_runtime (PDict [(ascii ''current_date'', PInt 7)]))"
    using c by (simp add: ascii_def)
  have 3: "raised TypeError (check_response sample_runtime (PDict [(ascii ''homeworks'', PStr (ascii ''none''))]))"
    using c by simp
  have 4: "snd (check_response sample_runtime
            (PDict [(ascii ''homeworks'', PList [PInt 1]), (ascii ''current_date'', PInt 7)])) = Inr [PInt 1]"
    using c by simp
  from 1 2 3 4 show ?thesis by simp
qed

subsection \<open>C5: get_api_answer\<close>

text \<open>
  C5. \<open>get_api_answer\<close> raises \<open>APIAnswerError\<close> exactly when the transport raised or the
  status code is not 200. In both cases it has just written one error record, with the
  text it raises. On a response with status 200 it returns the decoded body.
\<close>

theorem get_api_answer_contract:
  "(raised APIAnswerError (get_api_answer rt now transport cursor)
      \<longleftrightarrow> transport = RequestException \<or> (\<exists>code content. transport = Response code content \<and> code \<noteq> 200))
   \<and> (raised APIAnswerError (get_api_answer rt now transport cursor)
      \<longrightarrow> (\<exists>m. get_api_answer rt now transport cursor
               = ([HttpGet (py_or cursor (PInt now)), Log ERROR m], Inl (Exc APIAnswerError m))))
   \<and> (\<forall>v. transport = Response 200 (Json v)
      \<longrightarrow> get_api_answer rt now transport cursor
           = ([HttpGet (py_or cursor (PInt now))], Inr v))"
  by (cases transport; cases "\<exists>content. transport = Response 200 content")
     (auto simp: get_api_answer_def raised_simps Let_def split: body.splits)

text \<open>
  A transport failure, a status 503 and a status 200.
\<close>

theorem get_api_answer_contract_witness:
  "raised APIAnswerError (get_api_answer sample_runtime 1600 RequestException (PInt 1000))
   \<and> raised APIAnswerError (get_api_answer sample_runtime 1600 (Response 503 (NotJson [])) (PInt 1000))
   \<and> (\<exists>m. get_api_answer sample_runtime 1600 (Response 503 (NotJson [])) (PInt 1000)
            = ([HttpGet (PInt 1000), Log ERROR m], Inl (Exc APIAnswerError m)))
   \<and> \<not> raised APIAnswerError
          (get_api_answer sample_runtime 1600 (Response 200 (Json (PDict []))) (PInt 1000))
   \<and> get_api_answer sample_runtime 1600 (Response 200 (Json (PDict []))) (PInt 1000)
       = ([HttpGet (PInt 1000)], Inr (PDict []))"
proof -
  note a = get_api_answer_contract [of sample_runtime 1600 RequestException "PInt 1000"]
  note b = get_api_answer_contract [of sample_runtime 1600 "Response 503 (NotJson [])" "PInt 1000"]
  note c = get_api_answer_contract [of sample_runtime 1600 "Response 200 (Json (PDict []))" "PInt 1000"]
  from a have 1: "raised APIAnswerError (get_api_answer sample_runtime 1600 RequestException (PInt 1000))"
    by simp
  from b have 2: "raised APIAnswerError
      (get_api_answer sample_runtime 1600 (Response 503 (NotJson [])) (PInt 1000))"
    by simp
  from b 2 have 3: "\<exists>m. get_api_answer sample_runtime 1600 (Response 503 (NotJson [])) (PInt 1000)
            = ([HttpGet (PInt 1000), Log ERROR m], Inl (Exc APIAnswerError m))"
    by (simp add: py_or_def)
  from c have 4: "\<not> raised APIAnswerError
          (get_api_answer sample_runtime 1600 (Response 200 (Json (PDict []))) (PInt 1000))"
    by (simp add: raised_simps)
  from c have 5: "get_api_answer sample_runtime 1600 (Response 200 (Json (PDict []))) (PInt 1000)
       = ([HttpGet (PInt 1000)], Inr (PDict []))"
    by (simp add: py_or_def)
  show ?thesis
    by (intro conjI) (rule 1 2 3 4 5)+
qed

subsection \<open>C6: the guard of parse_status\<close>

text \<open>
  C6. The guard of line 111 tests the key \<open>'homework_name' or 'status'\<close>, which is
  \<open>'homework_name'\<close>. On a dictionary, \<open>parse_status\<close> logs and raises the guard's
  \<open>KeyError\<close> exactly when \<open>homework_name\<close> is absent: never when it is present, whether
  \<open>status\<close> is there or not.
\<close>

theorem parse_status_guard:
  "str_or (ascii ''homework_name'') (ascii ''status'') = ascii ''homework_name''
   \<and> (parse_status rt (PDict d) = ([Log ERROR txt_missing_keys], Inl (Exc KeyError txt_missing_keys))
        \<longleftrightarrow> map_of d (ascii ''homework_name'') = None)"
  by (auto simp: parse_status_def str_in_def subscript_def lookup_verdict_def str_or_guard texts_differ Let_def
        split: option.splits pyval.splits bool.splits sum.splits)

text \<open>
  The guard raises without \<open>homework_name\<close>, and does not with \<open>homework_name\<close> alone.
\<close>

theorem parse_status_guard_witness:
  "parse_status sample_runtime (PDict [(ascii ''status'', PStr (ascii ''approved''))])
     = ([Log ERROR txt_missing_keys], Inl (Exc KeyError txt_missing_keys))
   \<and> parse_status sample_runtime (PDict [(ascii ''homework_name'', PStr (ascii ''hw1''))])
     \<noteq> ([Log ERROR txt_missing_keys], Inl (Exc KeyError txt_missing_keys))"
proof -
  have 1: "parse_status sample_runtime (PDict [(ascii ''status'', PStr (ascii ''approved''))])
     = ([Log ERROR txt_missing_keys], Inl (Exc KeyError txt_missing_keys))"
    using parse_status_guard [of sample_runtime "[(ascii ''status'', PStr (ascii ''approved''))]"]
    by (simp add: sample_keys)
  have 2: "parse_status sample_runtime (PDict [(ascii ''homework_name'', PStr (ascii ''hw1''))])
     \<noteq> ([Log ERROR txt_missing_keys], Inl (Exc KeyError txt_missing_keys))"
    using parse_status_guard [of sample_runtime "[(ascii ''homework_name'', PStr (ascii ''hw1''))]"]
    by simp
  show ?thesis
    by (intro conjI) (rule 1 2)+
qed

subsection \<open>C7: failures in the loop\<close>

text \<open>
  C7. When the body of the \<open>try\<close> raises \<open>SendMessageError\<close>, the iteration only writes
  one error record and sleeps: no call of the Notifier follows and the loop goes on.
  Any other exception becomes the message of line 174, \<open>txt_failure\<close> followed by
  \<open>str(error)\<close>; when it
  differs from \<open>prev_message\<close> it is stored, logged at error level and sent, and when
  that send fails its \<open>SendMessageError\<close> leaves the iteration after the sleep; when it
  equals \<open>prev_message\<close> the iteration only sleeps. An exception that leaves an
  iteration ends \<open>main\<close>: no later iteration runs.
\<close>

theorem loop_failure_handling:
  "(\<forall>tr st1 e. try_body rt cfg tk st = (tr, st1, Inl e) \<and> kind e = SendMessageError
       \<longrightarrow> iteration rt cfg tk st
            = (tr @ [Log ERROR txt_send_failure, Sleep RETRY_PERIOD], st1, None))
   \<and> (\<forall>tr st1 e. try_body rt cfg tk st = (tr, st1, Inl e) \<and> kind e \<noteq> SendMessageError
                  \<and> txt_failure @ str_exc rt e \<noteq> prev_message st1
       \<longrightarrow> iteration rt cfg tk st
            = (tr @ [Log ERROR (txt_failure @ str_exc rt e),
                     Log DEBUG (txt_attempt @ txt_failure @ str_exc rt e),
                     BotSend (TELEGRAM_CHAT_ID cfg) (txt_failure @ str_exc rt e),
                     if send tk = Delivered then Log DEBUG txt_sent else Log ERROR txt_send_failure,
                     Sleep RETRY_PERIOD],
               st1\<lparr>prev_message := txt_failure @ str_exc rt e\<rparr>,
               if send tk = Delivered then None else Some (Exc SendMessageError txt_send_failure)))
   \<and> (\<forall>tr st1 e. try_body rt cfg tk st = (tr, st1, Inl e) \<and> kind e \<noteq> SendMessageError
                  \<and> txt_failure @ str_exc rt e = prev_message st1
       \<longrightarrow> iteration rt cfg tk st = (tr @ [Sleep RETRY_PERIOD], st1, None))
   \<and> (\<forall>tr st' e tks. iteration rt cfg tk st = (tr, st', Some e)
       \<longrightarrow> main_loop rt cfg st (tk # tks) = (tr, Uncaught e st'))"
  by (auto simp: iteration_def handlers_def send_message_cases Let_def)

text \<open>
  A failed send of a status message; a failed request whose notification fails too, which
  ends the loop before the next iteration; and a failed request whose message is the
  stored one.
\<close>

theorem loop_failure_handling_witness:
  "iteration sample_runtime sample_config (status_tick ''reviewing'' 1500 TelegramError)
       \<lparr>current_timestamp = PInt 1000, prev_message = []\<rparr>
     = ([HttpGet (PInt 1000), Log DEBUG (txt_attempt @ hw1_message verdict_reviewing),
         BotSend (Some (ascii ''42'')) (hw1_message verdict_reviewing), Log ERROR txt_send_failure]
        @ [Log ERROR txt_send_failure, Sleep RETRY_PERIOD],
        \<lparr>current_timestamp = PInt 1500, prev_message = hw1_message verdict_reviewing\<rparr>, None)
   \<and> iteration sample_runtime sample_config (outage_tick 1600 TelegramError)
       \<lparr>current_timestamp = PInt 1000, prev_message = []\<rparr>
     = ([HttpGet (PInt 1000), Log ERROR (outage_message sample_runtime (PInt 1000))]
        @ [Log ERROR (txt_failure @ outage_message sample_runtime (PInt 1000)),
           Log DEBUG (txt_attempt @ txt_failure @ outage_message sample_runtime (PInt 1000)),
           BotSend (Some (ascii ''42'')) (txt_failure @ outage_message sample_runtime (PInt 1000)),
           Log ERROR txt_send_failure, Sleep RETRY_PERIOD],
        \<lparr>current_timestamp = PInt 1000,
           prev_message = txt_failure @ outage_message sample_runtime (PInt 1000)\<rparr>,
        Some (Exc SendMessageError txt_send_failure))
   \<and> iteration sample_runtime sample_config (outage_tick 1600 TelegramError)
       \<lparr>current_timestamp = PInt 1000,
          prev_message = txt_failure @ outage_message sample_runtime (PInt 1000)\<rparr>
     = ([HttpGet (PInt 1000), Log ERROR (outage_message sample_runtime (PInt 1000))]
        @ [Sleep RETRY_PERIOD],
        \<lparr>current_timestamp = PInt 1000,
           prev_message = txt_failure @ outage_message sample_runtime (PInt 1000)\<rparr>, None)
   \<and> snd (main_loop sample_runtime sample_config \<lparr>current_timestamp = PInt 1000, prev_message = []\<rparr>
          [outage_tick 1600 TelegramError, status_tick ''reviewing'' 2200 Delivered])
     = Uncaught (Exc SendMessageError txt_send_failure)
         \<lparr>current_timestamp = PInt 1000,
            prev_message = txt_failure @ outage_message sample_runtime (PInt 1000)\<rparr>"
proof -
  let ?s0 = "\<lparr>current_timestamp = PInt 1000, prev_message = []\<rparr>"
  let ?m = "txt_failure @ outage_message sample_runtime (PInt 1000)"
  let ?sm = "\<lparr>current_timestamp = PInt 1000, prev_message = ?m\<rparr>"
  let ?out = "outage_tick 1600 TelegramError"
  let ?st = "status_tick ''reviewing'' 1500 TelegramError"
  note a = loop_failure_handling [of sample_runtime sample_config ?st ?s0]
  note b = loop_failure_handling [of sample_runtime sample_config ?out ?s0]
  note c = loop_failure_handling [of sample_runtime sample_config ?out ?sm]
  have ta: "try_body sample_runtime sample_config ?st ?s0
     = ([HttpGet (PInt 1000), Log DEBUG (txt_attempt @ hw1_message verdict_reviewing),
         BotSend (Some (ascii ''42'')) (hw1_message verdict_reviewing), Log ERROR txt_send_failure],
        \<lparr>current_timestamp = PInt 1500, prev_message = hw1_message verdict_reviewing\<rparr>,
        Inl (Exc SendMessageError txt_send_failure))"
    by (simp add: try_body_status_failed verdict_lookups hw1_messages sample_chat)
  have tb: "try_body sample_runtime sample_config ?out ?s0
     = ([HttpGet (PInt 1000), Log ERROR (outage_message sample_runtime (PInt 1000))], ?s0,
        Inl (Exc APIAnswerError (outage_message sample_runtime (PInt 1000))))"
    by (simp add: try_body_outage_message)
  have tc: "try_body sample_runtime sample_config ?out ?sm
     = ([HttpGet (PInt 1000), Log ERROR (outage_message sample_runtime (PInt 1000))], ?sm,
        Inl (Exc APIAnswerError (outage_message sample_runtime (PInt 1000))))"
    by (simp add: try_body_outage_message)
  have str: "str_exc sample_runtime (Exc APIAnswerError (outage_message sample_runtime (PInt 1000)))
     = outage_message sample_runtime (PInt 1000)"
    by (simp add: str_exc_def)
  have 1: "iteration sample_runtime sample_config ?st ?s0
     = ([HttpGet (PInt 1000), Log DEBUG (txt_attempt @ hw1_message verdict_reviewing),
         BotSend (Some (ascii ''42'')) (hw1_message verdict_reviewing), Log ERROR txt_send_failure]
        @ [Log ERROR txt_send_failure, Sleep RETRY_PERIOD],
        \<lparr>current_timestamp = PInt 1500, prev_message = hw1_message verdict_reviewing\<rparr>, None)"
    by (rule a [THEN conjunct1, rule_format, of _ _ "Exc SendMessageError txt_send_failure"])
       (simp add: ta)
  have 2: "iteration sample_runtime sample_config ?out ?s0
     = ([HttpGet (PInt 1000), Log ERROR (outage_message sample_runtime (PInt 1000))]
        @ [Log ERROR ?m, Log DEBUG (txt_attempt @ ?m), BotSend (Some (ascii ''42'')) ?m,
           Log ERROR txt_send_failure, Sleep RETRY_PERIOD],
        ?sm, Some (Exc SendMessageError txt_send_failure))"
    using b [THEN conjunct2, THEN conjunct1, rule_format,
        of "[HttpGet (PInt 1000), Log ERROR (outage_message sample_runtime (PInt 1000))]" ?s0
           "Exc APIAnswerError (outage_message sample_runtime (PInt 1000))"]
    by (simp add: tb str txt_failure_nonempty sample_chat send_outage)
  have 3: "iteration sample_runtime sample_config ?out ?sm
     = ([HttpGet (PInt 1000), Log ERROR (outage_message sample_runtime (PInt 1000))]
        @ [Sleep RETRY_PERIOD], ?sm, None)"
    using c [THEN conjunct2, THEN conjunct2, THEN conjunct1, rule_format,
        of "[HttpGet (PInt 1000), Log ERROR (outage_message sample_runtime (PInt 1000))]" ?sm
           "Exc APIAnswerError (outage_message sample_runtime (PInt 1000))"]
    by (simp add: tc str)
  have 4: "snd (main_loop sample_runtime sample_config ?s0
          [?out, status_tick ''reviewing'' 2200 Delivered])
     = Uncaught (Exc SendMessageError txt_send_failure) ?sm"
    using b [THEN conjunct2, THEN conjunct2, THEN conjunct2, rule_format, OF 2,
        of "[status_tick ''reviewing'' 2200 Delivered]"]
    by simp
  show ?thesis
    by (intro conjI) (rule 1 2 3 4)+
qed

subsection \<open>C8: the startup check\<close>

text \<open>
  C8. \<open>check_tokens\<close> returns \<open>False\<close> exactly when one of the three variables is unset,
  and has then written one critical record; otherwise it writes nothing. \<open>main\<close> exits
  through \<open>sys.exit\<close> exactly when one of them is unset, having done nothing but that
  record; with all three set it is the polling loop from the startup time and the empty
  \<open>prev_message\<close>.
\<close>

theorem startup_check:
  "(snd (check_tokens cfg) = False
      \<longleftrightarrow> PRACTICUM_TOKEN cfg = None \<or> TELEGRAM_TOKEN cfg = None \<or> TELEGRAM_CHAT_ID cfg = None)
   \<and> (\<not> snd (check_tokens cfg) \<longrightarrow> (\<exists>m. fst (check_tokens cfg) = [Log CRITICAL m]))
   \<and> (snd (check_tokens cfg) \<longrightarrow> fst (check_tokens cfg) = [])
   \<and> ((\<exists>m. snd (main rt cfg start ticks) = SysExit m)
        \<longleftrightarrow> PRACTICUM_TOKEN cfg = None \<or> TELEGRAM_TOKEN cfg = None \<or> TELEGRAM_CHAT_ID cfg = None)
   \<and> (\<not> snd (check_tokens cfg)
        \<longrightarrow> main rt cfg start ticks = (fst (check_tokens cfg), SysExit txt_check_tokens))
   \<and> (snd (check_tokens cfg)
        \<longrightarrow> main rt cfg start ticks
            = main_loop rt cfg \<lparr>current_timestamp = PInt start, prev_message = []\<rparr> ticks)"
proof -
  have iff: "snd (check_tokens cfg) = False
      \<longleftrightarrow> PRACTICUM_TOKEN cfg = None \<or> TELEGRAM_TOKEN cfg = None \<or> TELEGRAM_CHAT_ID cfg = None"
    by (auto simp: check_tokens_def Let_def)
  have log: "\<not> snd (check_tokens cfg) \<longrightarrow> (\<exists>m. fst (check_tokens cfg) = [Log CRITICAL m])"
    by (auto simp: check_tokens_def Let_def)
  have nolog: "snd (check_tokens cfg) \<longrightarrow> fst (check_tokens cfg) = []"
    by (auto simp: check_tokens_def Let_def)
  have exit: "\<not> snd (check_tokens cfg)
        \<longrightarrow> main rt cfg start ticks = (fst (check_tokens cfg), SysExit txt_check_tokens)"
    by (cases "check_tokens cfg") (simp add: main_def)
  have loop: "snd (check_tokens cfg)
        \<longrightarrow> main rt cfg start ticks
            = main_loop rt cfg \<lparr>current_timestamp = PInt start, prev_message = []\<rparr> ticks"
    using nolog by (cases "check_tokens cfg") (auto simp: main_def split: prod.splits)
  have "(\<exists>m. snd (main rt cfg start ticks) = SysExit m) \<longleftrightarrow> \<not> snd (check_tokens cfg)"
  proof (cases "snd (check_tokens cfg)")
    case True
    with loop have "main rt cfg start ticks
            = main_loop rt cfg \<lparr>current_timestamp = PInt start, prev_message = []\<rparr> ticks" by simp
    with True show ?thesis
      using main_loop_not_exit [of rt cfg "\<lparr>current_timestamp = PInt start, prev_message = []\<rparr>" ticks]
      by (metis prod.collapse)
  next
    case False
    with exit show ?thesis by simp
  qed
  with iff have mainiff: "(\<exists>m. snd (main rt cfg start ticks) = SysExit m)
        \<longleftrightarrow> PRACTICUM_TOKEN cfg = None \<or> TELEGRAM_TOKEN cfg = None \<or> TELEGRAM_CHAT_ID cfg = None"
    by simp
  from iff log nolog mainiff exit loop show ?thesis by blast
qed

text \<open>
  All three variables set, and one of them unset.
\<close>

theorem startup_check_witness:
  "snd (check_tokens sample_config)
   \<and> main sample_runtime sample_config 1000 []
       = ([], Polling \<lparr>current_timestamp = PInt 1000, prev_message = []\<rparr>)
   \<and> \<not> snd (check_tokens (sample_config\<lparr>TELEGRAM_TOKEN := None\<rparr>))
   \<and> main sample_runtime (sample_config\<lparr>TELEGRAM_TOKEN := None\<rparr>) 1000
         [status_tick ''approved'' 1500 Delivered]
       = ([Log CRITICAL (txt_no_env @ ascii ''TELEGRAM_TOKEN'')], SysExit txt_check_tokens)
   \<and> (\<exists>m. snd (main sample_runtime (sample_config\<lparr>TELEGRAM_CHAT_ID := None\<rparr>) 1000 []) = SysExit m)"
proof -
  let ?bad = "sample_config\<lparr>TELEGRAM_TOKEN := None\<rparr>"
  let ?bad2 = "sample_config\<lparr>TELEGRAM_CHAT_ID := None\<rparr>"
  note a = startup_check [of sample_config sample_runtime 1000 "[]"]
  note b = startup_check [of ?bad sample_runtime 1000 "[status_tick ''approved'' 1500 Delivered]"]
  note c = startup_check [of ?bad2 sample_runtime 1000 "[]"]
  from a have 1: "snd (check_tokens sample_config)"
    by (simp add: sample_config_def)
  from a 1 have 2: "main sample_runtime sample_config 1000 []
       = ([], Polling \<lparr>current_timestamp = PInt 1000, prev_message = []\<rparr>)"
    by simp
  from b have 3: "\<not> snd (check_tokens ?bad)"
    by simp
  have log: "fst (check_tokens ?bad) = [Log CRITICAL (txt_no_env @ ascii ''TELEGRAM_TOKEN'')]"
    by (simp add: check_tokens_def sample_config_def)
  from b 3 log have 4: "main sample_runtime ?bad 1000 [status_tick ''approved'' 1500 Delivered]
       = ([Log CRITICAL (txt_no_env @ ascii ''TELEGRAM_TOKEN'')], SysExit txt_check_tokens)"
    by simp
  from c have 5: "\<exists>m. snd (main sample_runtime ?bad2 1000 []) = SysExit m"
    by simp
  show ?thesis
    by (intro conjI) (rule 1 2 3 4 5)+
qed

subsection \<open>C9: a failed send\<close>

text \<open>
  C9, as the code has it. \<open>prev_message\<close> is assigned before the Notifier is called, on
  both paths. When the send of a status message fails, the message is already stored
  and the loop goes on; when the send of an error message fails, the message is already
  stored and the exception ends \<open>main\<close>. An iteration that formats the stored message
  sends nothing, keeps it stored and raises nothing: the lost message is not sent again
  for as long as the iterations format that same message.
\<close>

theorem failed_send_dedup:
  "(\<forall>tr st1 e. try_body rt cfg tk st = (tr, st1, Inl e) \<and> kind e = SendMessageError
       \<longrightarrow> (\<exists>m. formatted_message rt tk st = Some m \<and> sent_texts tr = [m] \<and> send tk = TelegramError
                \<and> prev_message st1 = m
                \<and> iteration rt cfg tk st
                    = (tr @ [Log ERROR txt_send_failure, Sleep RETRY_PERIOD], st1, None)))
   \<and> (\<forall>tr st1 e. try_body rt cfg tk st = (tr, st1, Inl e) \<and> kind e \<noteq> SendMessageError
                  \<and> txt_failure @ str_exc rt e \<noteq> prev_message st1 \<and> send tk = TelegramError
       \<longrightarrow> (\<exists>tr'. iteration rt cfg tk st
                     = (tr', st1\<lparr>prev_message := txt_failure @ str_exc rt e\<rparr>,
                        Some (Exc SendMessageError txt_send_failure))
                 \<and> sent_texts tr' = [txt_failure @ str_exc rt e]))
   \<and> (\<forall>tr st' x. iteration rt cfg tk st = (tr, st', x)
                  \<and> formatted_message rt tk st = Some (prev_message st)
       \<longrightarrow> sent_texts tr = [] \<and> prev_message st' = prev_message st \<and> x = None)"
proof (intro conjI allI impI)
  fix tr st1 e
  assume a: "try_body rt cfg tk st = (tr, st1, Inl e) \<and> kind e = SendMessageError"
  then have t: "try_body rt cfg tk st = (tr, st1, Inl e)" by simp
  from try_body_summary [OF t] a
  show "\<exists>m. formatted_message rt tk st = Some m \<and> sent_texts tr = [m] \<and> send tk = TelegramError
                \<and> prev_message st1 = m
                \<and> iteration rt cfg tk st
                    = (tr @ [Log ERROR txt_send_failure, Sleep RETRY_PERIOD], st1, None)"
    by (auto simp: iteration_def handlers_def)
next
  fix tr st1 e
  assume a: "try_body rt cfg tk st = (tr, st1, Inl e) \<and> kind e \<noteq> SendMessageError
                  \<and> txt_failure @ str_exc rt e \<noteq> prev_message st1 \<and> send tk = TelegramError"
  then have t: "try_body rt cfg tk st = (tr, st1, Inl e)" by simp
  from try_body_summary [OF t] a
  show "\<exists>tr'. iteration rt cfg tk st
                     = (tr', st1\<lparr>prev_message := txt_failure @ str_exc rt e\<rparr>,
                        Some (Exc SendMessageError txt_send_failure))
                 \<and> sent_texts tr' = [txt_failure @ str_exc rt e]"
    by (auto simp: iteration_def handlers_def send_message_cases Let_def sent_texts_append)
next
  fix tr st' x
  assume a: "iteration rt cfg tk st = (tr, st', x) \<and> formatted_message rt tk st = Some (prev_message st)"
  then have i: "iteration rt cfg tk st = (tr, st', x)" by simp
  from iteration_summary [OF i] a
  show "sent_texts tr = []" by simp
next
  fix tr st' x
  assume a: "iteration rt cfg tk st = (tr, st', x) \<and> formatted_message rt tk st = Some (prev_message st)"
  then have i: "iteration rt cfg tk st = (tr, st', x)" by simp
  from iteration_summary [OF i] a
  show "prev_message st' = prev_message st" by simp
next
  fix tr st' x
  assume a: "iteration rt cfg tk st = (tr, st', x) \<and> formatted_message rt tk st = Some (prev_message st)"
  then have i: "iteration rt cfg tk st = (tr, st', x)" by simp
  obtain tr0 st0 r where t: "try_body rt cfg tk st = (tr0, st0, r)"
    by (cases "try_body rt cfg tk st") auto
  from try_body_summary [OF t] a t
  show "x = None"
    by (cases r) (auto simp: iteration_def handlers_def Let_def split: if_splits)
qed

text \<open>
  A failed send of a status message and of an error message, and the next iteration
  that formats the stored status message.
\<close>

theorem failed_send_dedup_witness:
  "(\<exists>m. formatted_message sample_runtime (status_tick ''reviewing'' 1500 TelegramError)
            \<lparr>current_timestamp = PInt 1000, prev_message = []\<rparr> = Some m
        \<and> sent_texts [HttpGet (PInt 1000), Log DEBUG (txt_attempt @ hw1_message verdict_reviewing),
             BotSend (Some (ascii ''42'')) (hw1_message verdict_reviewing),
             Log ERROR txt_send_failure] = [m]
        \<and> send (status_tick ''reviewing'' 1500 TelegramError) = TelegramError
        \<and> prev_message \<lparr>current_timestamp = PInt 1500, prev_message = hw1_message verdict_reviewing\<rparr> = m
        \<and> iteration sample_runtime sample_config (status_tick ''reviewing'' 1500 TelegramError)
             \<lparr>current_timestamp = PInt 1000, prev_message = []\<rparr>
           = ([HttpGet (PInt 1000), Log DEBUG (txt_attempt @ hw1_message verdict_reviewing),
               BotSend (Some (ascii ''42'')) (hw1_message verdict_reviewing),
               Log ERROR txt_send_failure] @ [Log ERROR txt_send_failure, Sleep RETRY_PERIOD],
              \<lparr>current_timestamp = PInt 1500, prev_message = hw1_message verdict_reviewing\<rparr>,
              None))
   \<and> (\<exists>tr'. iteration sample_runtime sample_config (outage_tick 1600 TelegramError)
                \<lparr>current_timestamp = PInt 1000, prev_message = []\<rparr>
              = (tr', \<lparr>current_timestamp = PInt 1000,
                        prev_message = txt_failure @ outage_message sample_runtime (PInt 1000)\<rparr>,
                 Some (Exc SendMessageError txt_send_failure))
            \<and> sent_texts tr' = [txt_failure @ outage_message sample_runtime (PInt 1000)])
   \<and> sent_texts [HttpGet (PInt 1500), Sleep RETRY_PERIOD] = []
   \<and> iteration sample_runtime sample_config (status_tick ''reviewing'' 2100 Delivered)
         \<lparr>current_timestamp = PInt 1500, prev_message = hw1_message verdict_reviewing\<rparr>
       = ([HttpGet (PInt 1500), Sleep RETRY_PERIOD],
          \<lparr>current_timestamp = PInt 2100, prev_message = hw1_message verdict_reviewing\<rparr>, None)"
proof -
  let ?s0 = "\<lparr>current_timestamp = PInt 1000, prev_message = []\<rparr>"
  let ?s1 = "\<lparr>current_timestamp = PInt 1500, prev_message = hw1_message verdict_reviewing\<rparr>"
  let ?s2 = "\<lparr>current_timestamp = PInt 2100, prev_message = hw1_message verdict_reviewing\<rparr>"
  let ?m = "txt_failure @ outage_message sample_runtime (PInt 1000)"
  let ?out = "outage_tick 1600 TelegramError"
  let ?st = "status_tick ''reviewing'' 1500 TelegramError"
  let ?again = "status_tick ''reviewing'' 2100 Delivered"
  note a = failed_send_dedup [of sample_runtime sample_config ?st ?s0]
  note b = failed_send_dedup [of sample_runtime sample_config ?out ?s0]
  note c = failed_send_dedup [of sample_runtime sample_config ?again ?s1]
  have ta: "try_body sample_runtime sample_config ?st ?s0
     = ([HttpGet (PInt 1000), Log DEBUG (txt_attempt @ hw1_message verdict_reviewing),
         BotSend (Some (ascii ''42'')) (hw1_message verdict_reviewing), Log ERROR txt_send_failure],
        ?s1, Inl (Exc SendMessageError txt_send_failure))"
    by (simp add: try_body_status_failed verdict_lookups hw1_messages sample_chat)
  have tb: "try_body sample_runtime sample_config ?out ?s0
     = ([HttpGet (PInt 1000), Log ERROR (outage_message sample_runtime (PInt 1000))], ?s0,
        Inl (Exc APIAnswerError (outage_message sample_runtime (PInt 1000))))"
    by (simp add: try_body_outage_message)
  have str: "str_exc sample_runtime (Exc APIAnswerError (outage_message sample_runtime (PInt 1000)))
     = outage_message sample_runtime (PInt 1000)"
    by (simp add: str_exc_def)
  have ic: "iteration sample_runtime sample_config ?again ?s1
     = ([HttpGet (PInt 1500), Sleep RETRY_PERIOD], ?s2, None)"
    by (simp add: iteration_status verdict_lookups)
  have fc: "formatted_message sample_runtime ?again ?s1 = Some (prev_message ?s1)"
    by (simp add: formatted_status verdict_lookups)
  have 1: "\<exists>m. formatted_message sample_runtime ?st ?s0 = Some m
        \<and> sent_texts [HttpGet (PInt 1000), Log DEBUG (txt_attempt @ hw1_message verdict_reviewing),
             BotSend (Some (ascii ''42'')) (hw1_message verdict_reviewing),
             Log ERROR txt_send_failure] = [m]
        \<and> send ?st = TelegramError
        \<and> prev_message ?s1 = m
        \<and> iteration sample_runtime sample_config ?st ?s0
           = ([HttpGet (PInt 1000), Log DEBUG (txt_attempt @ hw1_message verdict_reviewing),
               BotSend (Some (ascii ''42'')) (hw1_message verdict_reviewing),
               Log ERROR txt_send_failure] @ [Log ERROR txt_send_failure, Sleep RETRY_PERIOD],
              ?s1, None)"
    by (rule a [THEN conjunct1, rule_format, of _ _ "Exc SendMessageError txt_send_failure"])
       (simp add: ta)
  have 2: "\<exists>tr'. iteration sample_runtime sample_config ?out ?s0
              = (tr', \<lparr>current_timestamp = PInt 1000, prev_message = ?m\<rparr>,
                 Some (Exc SendMessageError txt_send_failure))
            \<and> sent_texts tr' = [?m]"
    using b [THEN conjunct2, THEN conjunct1, rule_format,
        of "[HttpGet (PInt 1000), Log ERROR (outage_message sample_runtime (PInt 1000))]" ?s0
           "Exc APIAnswerError (outage_message sample_runtime (PInt 1000))"]
    by (simp add: tb str txt_failure_nonempty send_outage)
  from c [THEN conjunct2, THEN conjunct2, rule_format, of "[HttpGet (PInt 1500), Sleep RETRY_PERIOD]" ?s2 None]
    ic fc
  have 3: "sent_texts [HttpGet (PInt 1500), Sleep RETRY_PERIOD] = []"
    by simp
  show ?thesis
    by (intro conjI) (rule 1 2 3 ic)+
qed

text \<open>
  A lost message is sent again in a later iteration once another message came between:
  the send of \<open>reviewing\<close> fails, \<open>approved\<close> is sent, and the next \<open>reviewing\<close> is
  handed to the bot again.
\<close>

theorem resend_after_other_message:
  "fst (iteration sample_runtime sample_config (status_tick ''reviewing'' 1500 TelegramError)
          \<lparr>current_timestamp = PInt 1000, prev_message = []\<rparr>)
     = [HttpGet (PInt 1000), Log DEBUG (txt_attempt @ hw1_message verdict_reviewing),
        BotSend (Some (ascii ''42'')) (hw1_message verdict_reviewing),
        Log ERROR txt_send_failure, Log ERROR txt_send_failure, Sleep 600]
   \<and> sent_texts (fst (main sample_runtime sample_config 1000
        [status_tick ''reviewing'' 1500 TelegramError, status_tick ''approved'' 2100 Delivered,
         status_tick ''reviewing'' 2700 Delivered]))
     = [hw1_message verdict_reviewing, hw1_message verdict_approved, hw1_message verdict_reviewing]"
  by (simp add: main_sample iteration_status verdict_lookups hw1_messages RETRY_PERIOD_def sample_chat)

subsection \<open>C10: a record without status\<close>

text \<open>
  C10. On a dictionary with \<open>homework_name\<close> and without \<open>status\<close>, \<open>parse_status\<close> raises
  the \<open>KeyError\<close> of the subscript \<open>homework['status']\<close> and writes no log record. A
  dictionary that lacks either key makes it raise a \<open>KeyError\<close>.
\<close>

theorem parse_status_missing_key:
  "(map_of d (ascii ''homework_name'') \<noteq> None \<and> map_of d (ascii ''status'') = None
      \<longrightarrow> parse_status rt (PDict d) = ([], Inl (Exc KeyError (ascii ''status''))))
   \<and> (map_of d (ascii ''homework_name'') = None \<or> map_of d (ascii ''status'') = None
      \<longrightarrow> raised KeyError (parse_status rt (PDict d)))"
  by (auto simp: parse_status_def str_in_def subscript_def str_or_guard raised_simps Let_def
        split: option.splits)

text \<open>
  Dictionaries without \<open>status\<close>, without \<open>homework_name\<close>, and without both.
\<close>

theorem parse_status_missing_key_witness:
  "parse_status sample_runtime (PDict [(ascii ''homework_name'', PStr (ascii ''hw1''))])
     = ([], Inl (Exc KeyError (ascii ''status'')))
   \<and> raised KeyError (parse_status sample_runtime (PDict [(ascii ''homework_name'', PStr (ascii ''hw1''))]))
   \<and> raised KeyError (parse_status sample_runtime (PDict [(ascii ''status'', PStr (ascii ''approved''))]))
   \<and> raised KeyError (parse_status sample_runtime (PDict []))"
proof -
  note a = parse_status_missing_key [of "[(ascii ''homework_name'', PStr (ascii ''hw1''))]" sample_runtime]
  note b = parse_status_missing_key [of "[(ascii ''status'', PStr (ascii ''approved''))]" sample_runtime]
  note c = parse_status_missing_key [of "[]" sample_runtime]
  from a have 1: "parse_status sample_runtime (PDict [(ascii ''homework_name'', PStr (ascii ''hw1''))])
     = ([], Inl (Exc KeyError (ascii ''status'')))"
    by (simp add: sample_keys)
  from a have 2: "raised KeyError
      (parse_status sample_runtime (PDict [(ascii ''homework_name'', PStr (ascii ''hw1''))]))"
    by (simp add: sample_keys raised_simps)
  from b have 3: "raised KeyError
      (parse_status sample_runtime (PDict [(ascii ''status'', PStr (ascii ''approved''))]))"
    by (simp add: sample_keys)
  from c have 4: "raised KeyError (parse_status sample_runtime (PDict []))"
    by simp
  show ?thesis
    by (intro conjI) (rule 1 2 3 4)+
qed

end
